theory Spec2Isabelle
  imports Complex_Main "HOL-Library.Sublist" "HOL-Library.Word"
begin

section \<open>JavaScript values\<close>

text \<open>
  The viewer (\<^verbatim>\<open>app.js\<close>) handles values that come out of \<^verbatim>\<open>JSON.parse\<close> and
  \<^verbatim>\<open>response.json()\<close>, plus \<^verbatim>\<open>null\<close> and \<^verbatim>\<open>undefined\<close>. A finite number is
  represented by its exact rational value; \<^verbatim>\<open>NaN\<close> and the two infinities are separate
  constructors (negative zero is not represented). A string is a \<^typ>\<open>string\<close>; an object is
  the association list of its own properties, as \<^verbatim>\<open>JSON.parse\<close> built it.
\<close>

datatype jsnum = NaN | Infinity bool | Num rat

datatype jsval =
    JUndefined
  | JNull
  | JBool bool
  | JNum jsnum
  | JStr string
  | JArr "jsval list"
  | JObj "(string \<times> jsval) list"

datatype js_error = TypeError | SyntaxError | Error string

text \<open>Truthiness, as \<^verbatim>\<open>if (x)\<close>, \<^verbatim>\<open>!x\<close> and \<^verbatim>\<open>x || y\<close> test it.\<close>

fun truthy :: "jsval \<Rightarrow> bool" where
  "truthy JUndefined = False"
| "truthy JNull = False"
| "truthy (JBool b) = b"
| "truthy (JNum n) = (n \<noteq> NaN \<and> n \<noteq> Num 0)"
| "truthy (JStr s) = (s \<noteq> [])"
| "truthy (JArr xs) = True"
| "truthy (JObj kvs) = True"

text \<open>
  Property read \<^verbatim>\<open>o.name\<close>. Reading a property of \<^verbatim>\<open>null\<close> or \<^verbatim>\<open>undefined\<close> throws a
  TypeError; on an object it is the stored value or \<^verbatim>\<open>undefined\<close>; on the other values
  it is \<^verbatim>\<open>undefined\<close> for every name the viewer reads from parsed data (\<^verbatim>\<open>ciphertext\<close>,
  \<^verbatim>\<open>iv\<close>, \<^verbatim>\<open>salt\<close>, \<^verbatim>\<open>keySize\<close>, \<^verbatim>\<open>iterations\<close>, \<^verbatim>\<open>mechanism\<close>), none of which
  is a property of a string, number, boolean or array.
\<close>

fun get_prop :: "jsval \<Rightarrow> string \<Rightarrow> js_error + jsval" where
  "get_prop JUndefined name = Inl TypeError"
| "get_prop JNull name = Inl TypeError"
| "get_prop (JObj kvs) name = (case map_of kvs name of None \<Rightarrow> Inr JUndefined | Some v \<Rightarrow> Inr v)"
| "get_prop v name = Inr JUndefined"

section \<open>The libraries the viewer calls\<close>

text \<open>
  CryptoJS, \<^verbatim>\<open>JSON.parse\<close> and the conversion of text to a number are not part of the
  repository. They are a parameter of the model: a record with one field for each call that
  \<^verbatim>\<open>decryptData\<close> makes. Each call returns its value or throws.
\<close>

type_synonym wordarray = "8 word list"

datatype hash_algo = MD5 | SHA1 | SHA224 | SHA256 | SHA384 | SHA512 | SHA3 | RIPEMD160

datatype cipher_mode = CBC | CFB | CTR | OFB | ECB

datatype cipher_padding = Pkcs7 | AnsiX923 | Iso10126 | Iso97971 | ZeroPadding | NoPadding

text \<open>The option objects \<^verbatim>\<open>decryptData\<close> passes to \<^verbatim>\<open>CryptoJS.PBKDF2\<close> and \<^verbatim>\<open>CryptoJS.AES.decrypt\<close>.\<close>

record pbkdf2_cfg =
  keySize :: jsnum
  iterations :: jsval
  hasher :: hash_algo

record aes_cfg =
  iv :: wordarray
  mode :: cipher_mode
  padding :: cipher_padding

record platform =
  Base64_parse :: "jsval \<Rightarrow> js_error + wordarray"
  PBKDF2 :: "jsval \<Rightarrow> wordarray \<Rightarrow> pbkdf2_cfg \<Rightarrow> js_error + wordarray"
  AES_decrypt :: "wordarray \<Rightarrow> wordarray \<Rightarrow> aes_cfg \<Rightarrow> js_error + wordarray"
  Utf8_stringify :: "wordarray \<Rightarrow> js_error + string"
  JSON_parse :: "string \<Rightarrow> js_error + jsval"
  StringToNumber :: "string \<Rightarrow> jsnum"
  ArrayToNumber :: "jsval list \<Rightarrow> js_error + jsnum"

text \<open>
  \<^verbatim>\<open>ToNumber\<close>, applied by the operator \<^verbatim>\<open>/\<close> to its left operand. An object is first
  converted to a primitive value: a parsed object that has a property \<^verbatim>\<open>toString\<close> of its
  own (which is never a function) cannot be converted, and the conversion throws a
  TypeError; any other parsed object converts to the text \<^verbatim>\<open>[object Object]\<close> and so to
  \<^verbatim>\<open>NaN\<close>. An array converts through the texts of its elements, which is left to the
  platform and may throw for the same reason.
\<close>

fun ToNumber :: "platform \<Rightarrow> jsval \<Rightarrow> js_error + jsnum" where
  "ToNumber rt JUndefined = Inr NaN"
| "ToNumber rt JNull = Inr (Num 0)"
| "ToNumber rt (JBool b) = Inr (Num (if b then 1 else 0))"
| "ToNumber rt (JNum n) = Inr n"
| "ToNumber rt (JStr s) = Inr (StringToNumber rt s)"
| "ToNumber rt (JArr xs) = ArrayToNumber rt xs"
| "ToNumber rt (JObj kvs) = (if ''toString'' \<in> fst ` set kvs then Inl TypeError else Inr NaN)"

text \<open>\<^verbatim>\<open>x / 32\<close> on numbers. Dividing a double by a power of two is exact short of underflow.\<close>

fun div32 :: "jsnum \<Rightarrow> jsnum" where
  "div32 NaN = NaN"
| "div32 (Infinity b) = Infinity b"
| "div32 (Num r) = Num (r / 32)"

section \<open>Decryption\<close>

text \<open>\<^verbatim>\<open>CryptoJS.enc.Base64.parse(encrypted.name)\<close>\<close>

definition parse_field :: "platform \<Rightarrow> jsval \<Rightarrow> string \<Rightarrow> js_error + wordarray" where
  "parse_field rt encrypted name =
     (case get_prop encrypted name of
        Inl e \<Rightarrow> Inl e
      | Inr v \<Rightarrow> Base64_parse rt v)"

text \<open>
  The option object of the call to \<^verbatim>\<open>CryptoJS.PBKDF2\<close>:
  \<^verbatim>\<open>{ keySize: config.keySize / 32, iterations: config.iterations, hasher: CryptoJS.algo.SHA256 }\<close>
\<close>

definition pbkdf2_options :: "platform \<Rightarrow> jsval \<Rightarrow> js_error + pbkdf2_cfg" where
  "pbkdf2_options rt config =
     (case get_prop config ''keySize'' of
        Inl e \<Rightarrow> Inl e
      | Inr ks \<Rightarrow>
     (case ToNumber rt ks of
        Inl e \<Rightarrow> Inl e
      | Inr n \<Rightarrow>
     (case get_prop config ''iterations'' of
        Inl e \<Rightarrow> Inl e
      | Inr its \<Rightarrow> Inr \<lparr>keySize = div32 n, iterations = its, hasher = SHA256\<rparr>)))"

text \<open>The key derivation step: \<^verbatim>\<open>const key = CryptoJS.PBKDF2(password, salt, {...})\<close>\<close>

definition derive_key :: "platform \<Rightarrow> jsval \<Rightarrow> wordarray \<Rightarrow> jsval \<Rightarrow> js_error + wordarray" where
  "derive_key rt password salt_wa config =
     (case pbkdf2_options rt config of
        Inl e \<Rightarrow> Inl e
      | Inr opts \<Rightarrow> PBKDF2 rt password salt_wa opts)"

text \<open>
  The body of the \<^verbatim>\<open>try\<close> block of \<^verbatim>\<open>decryptData\<close> up to the text \<^verbatim>\<open>decryptedStr\<close>:
  the three fields of the envelope are decoded, the key is derived, the ciphertext is
  decrypted in CBC mode with PKCS#7 padding and the result is read as UTF-8.
\<close>

definition decryptedStr :: "platform \<Rightarrow> jsval \<Rightarrow> jsval \<Rightarrow> jsval \<Rightarrow> js_error + string" where
  "decryptedStr rt encrypted password config =
     (case parse_field rt encrypted ''ciphertext'' of
        Inl e \<Rightarrow> Inl e
      | Inr ciphertext_wa \<Rightarrow>
     (case parse_field rt encrypted ''iv'' of
        Inl e \<Rightarrow> Inl e
      | Inr iv_wa \<Rightarrow>
     (case parse_field rt encrypted ''salt'' of
        Inl e \<Rightarrow> Inl e
      | Inr salt_wa \<Rightarrow>
     (case derive_key rt password salt_wa config of
        Inl e \<Rightarrow> Inl e
      | Inr key \<Rightarrow>
     (case AES_decrypt rt ciphertext_wa key \<lparr>iv = iv_wa, mode = CBC, padding = Pkcs7\<rparr> of
        Inl e \<Rightarrow> Inl e
      | Inr decrypted \<Rightarrow> Utf8_stringify rt decrypted)))))"

text \<open>
  \<^verbatim>\<open>decryptData\<close>: the \<^verbatim>\<open>try\<close> block ends with \<^verbatim>\<open>return JSON.parse(decryptedStr)\<close>, and
  the \<^verbatim>\<open>catch\<close> block returns \<^verbatim>\<open>null\<close> for every exception thrown in it.
\<close>

definition decryptData :: "platform \<Rightarrow> jsval \<Rightarrow> jsval \<Rightarrow> jsval \<Rightarrow> jsval" where
  "decryptData rt encrypted password config =
     (case decryptedStr rt encrypted password config of
        Inl e \<Rightarrow> JNull
      | Inr s \<Rightarrow>
          (case JSON_parse rt s of
             Inl e \<Rightarrow> JNull
           | Inr v \<Rightarrow> v))"

section \<open>The mechanism chain\<close>

text \<open>
  \<^verbatim>\<open>mechanism.includes(needle)\<close>. On a string it is the substring test, on an array the
  membership test; a number, a boolean or an object has no method \<^verbatim>\<open>includes\<close>, and the
  call throws a TypeError. A needle of ASCII letters occurs in a text as a sequence of
  UTF-16 code units exactly when it occurs in it as a sequence of UTF-8 bytes.
\<close>

text \<open>The name \<open>includes\<close> is a keyword of Isabelle, hence \<open>js_includes\<close>.\<close>

fun js_includes :: "jsval \<Rightarrow> string \<Rightarrow> js_error + bool" where
  "js_includes (JStr s) needle = Inr (sublist needle s)"
| "js_includes (JArr xs) needle = Inr (JStr needle \<in> set xs)"
| "js_includes v needle = Inl TypeError"

text \<open>\<^verbatim>\<open>a && b\<close> and \<^verbatim>\<open>a && !b\<close> on tests that may throw: \<open>b\<close> is evaluated only when \<open>a\<close> holds.\<close>

definition js_and :: "js_error + bool \<Rightarrow> js_error + bool \<Rightarrow> js_error + bool" where
  "js_and a b = (case a of Inl e \<Rightarrow> Inl e | Inr x \<Rightarrow> if x then b else Inr False)"

definition js_not :: "js_error + bool \<Rightarrow> js_error + bool" where
  "js_not a = (case a of Inl e \<Rightarrow> Inl e | Inr x \<Rightarrow> Inr (\<not> x))"

text \<open>The template returned for \<^emph>\<open>Case #5: External Event + Contextual Discovery\<close> (the text between the backquotes, line breaks included).\<close>

definition chain_external_event :: string where
  \<open>chain_external_event = ''
            <div class="mechanism-chain">
                <h4>Awakening Chain</h4>
                <div class="chain-container">
                    <div class="chain-step external-event">
                        <div class="step-icon">1</div>
                        <div class="step-content">
                            <div class="step-title">External Event</div>
                            <div class="step-desc">COVID Second Wave + UK Vaccine Rollout (Feb 2021)</div>
                        </div>
                    </div>
                    <div class="chain-arrow">&#8595;</div>
                    <div class="chain-step">
                        <div class="step-icon">2</div>
                        <div class="step-content">
                            <div class="step-title">Community Activity Spike</div>
                            <div class="step-desc">Multiple new posts about COVID/vaccine/shielding</div>
                        </div>
                    </div>
                    <div class="chain-arrow">&#8595;</div>
                    <div class="chain-step">
                        <div class="step-icon">3</div>
                        <div class="step-content">
                            <div class="step-title">Related Content Browsing</div>
                            <div class="step-desc">Users browse new COVID posts, platform shows related content</div>
                        </div>
                    </div>
                    <div class="chain-arrow">&#8595;</div>
                    <div class="chain-step discovery">
                        <div class="step-icon">4</div>
                        <div class="step-content">
                            <div class="step-title">Old Post Discovery</div>
                            <div class="step-desc">Users find SB post via internal navigation (NOT email)</div>
                        </div>
                    </div>
                    <div class="chain-arrow">&#8595;</div>
                    <div class="chain-step peak">
                        <div class="step-icon">5</div>
                        <div class="step-content">
                            <div class="step-title">Peak Engagement</div>
                            <div class="step-desc">New user comments, sharing experiential knowledge</div>
                        </div>
                    </div>
                </div>
                <div class="chain-insight">
                    <strong>Key Insight:</strong> Platform email notifications only promote NEW posts (98.2% within 7 days).
                    Old posts are discovered through internal navigation / related content browsing.
                </div>
            </div>
        ''\<close>

text \<open>The template returned for \<^emph>\<open>Author Series Continuation\<close> (the text between the backquotes, line breaks included).\<close>

definition chain_series_continuation :: string where
  \<open>chain_series_continuation = ''
            <div class="mechanism-chain">
                <h4>Awakening Chain</h4>
                <div class="chain-container">
                    <div class="chain-step">
                        <div class="step-icon">1</div>
                        <div class="step-content">
                            <div class="step-title">Original Post Created</div>
                            <div class="step-desc">Author creates educational content</div>
                        </div>
                    </div>
                    <div class="chain-arrow">&#8595;</div>
                    <div class="chain-step dormancy">
                        <div class="step-icon">2</div>
                        <div class="step-content">
                            <div class="step-title">Dormancy Period</div>
                            <div class="step-desc">Post receives minimal attention</div>
                        </div>
                    </div>
                    <div class="chain-arrow">&#8595;</div>
                    <div class="chain-step prince">
                        <div class="step-icon">3</div>
                        <div class="step-content">
                            <div class="step-title">Follow-up Post (Prince)</div>
                            <div class="step-desc">Same author publishes continuation/sequel</div>
                        </div>
                    </div>
                    <div class="chain-arrow">&#8595;</div>
                    <div class="chain-step peak">
                        <div class="step-icon">4</div>
                        <div class="step-content">
                            <div class="step-title">Peak - Discovery</div>
                            <div class="step-desc">Readers of new post discover original</div>
                        </div>
                    </div>
                </div>
            </div>
        ''\<close>

text \<open>The template returned for \<^emph>\<open>Author Self-Promotion\<close> (the text between the backquotes, line breaks included).\<close>

definition chain_self_promotion :: string where
  \<open>chain_self_promotion = ''
            <div class="mechanism-chain">
                <h4>Awakening Chain</h4>
                <div class="chain-container">
                    <div class="chain-step">
                        <div class="step-icon">1</div>
                        <div class="step-content">
                            <div class="step-title">Original Post Created</div>
                            <div class="step-desc">Author creates educational content</div>
                        </div>
                    </div>
                    <div class="chain-arrow">&#8595;</div>
                    <div class="chain-step dormancy">
                        <div class="step-icon">2</div>
                        <div class="step-content">
                            <div class="step-title">Dormancy Period</div>
                            <div class="step-desc">Post receives minimal attention</div>
                        </div>
                    </div>
                    <div class="chain-arrow">&#8595;</div>
                    <div class="chain-step prince">
                        <div class="step-icon">3</div>
                        <div class="step-content">
                            <div class="step-title">Related Discussion (Prince)</div>
                            <div class="step-desc">Another user posts on related topic</div>
                        </div>
                    </div>
                    <div class="chain-arrow">&#8595;</div>
                    <div class="chain-step self-promo">
                        <div class="step-icon">4</div>
                        <div class="step-content">
                            <div class="step-title">Author Comments with Link</div>
                            <div class="step-desc">Original author replies with link to their post</div>
                        </div>
                    </div>
                    <div class="chain-arrow">&#8595;</div>
                    <div class="chain-step peak">
                        <div class="step-icon">5</div>
                        <div class="step-content">
                            <div class="step-title">Peak - Referral Traffic</div>
                            <div class="step-desc">Readers follow link to original post</div>
                        </div>
                    </div>
                </div>
            </div>
        ''\<close>

text \<open>The template returned for \<^emph>\<open>New User Discovery\<close> (the text between the backquotes, line breaks included).\<close>

definition chain_new_user_discovery :: string where
  \<open>chain_new_user_discovery = ''
            <div class="mechanism-chain">
                <h4>Awakening Chain</h4>
                <div class="chain-container">
                    <div class="chain-step">
                        <div class="step-icon">1</div>
                        <div class="step-content">
                            <div class="step-title">Original Post Created</div>
                            <div class="step-desc">User seeks help/shares experience</div>
                        </div>
                    </div>
                    <div class="chain-arrow">&#8595;</div>
                    <div class="chain-step dormancy">
                        <div class="step-icon">2</div>
                        <div class="step-content">
                            <div class="step-title">Dormancy Period</div>
                            <div class="step-desc">Post receives minimal attention</div>
                        </div>
                    </div>
                    <div class="chain-arrow">&#8595;</div>
                    <div class="chain-step discovery">
                        <div class="step-icon">3</div>
                        <div class="step-content">
                            <div class="step-title">New User Discovers Post</div>
                            <div class="step-desc">Via search, related posts, or browsing</div>
                        </div>
                    </div>
                    <div class="chain-arrow">&#8595;</div>
                    <div class="chain-step peak">
                        <div class="step-icon">4</div>
                        <div class="step-content">
                            <div class="step-title">Peak - Re-engagement</div>
                            <div class="step-desc">New user comments, may trigger original participants</div>
                        </div>
                    </div>
                </div>
            </div>
        ''\<close>

text \<open>
  \<^verbatim>\<open>renderMechanismChain(c)\<close>: the label is \<^verbatim>\<open>c.mechanism || ''\<close>; the four tests are
  made in the order of the source, and the first that holds selects the template.
\<close>

definition renderMechanismChain :: "jsval \<Rightarrow> js_error + string" where
  "renderMechanismChain c =
     (case get_prop c ''mechanism'' of
        Inl e \<Rightarrow> Inl e
      | Inr m \<Rightarrow>
     (let mechanism = (if truthy m then m else JStr []) in
     (case js_and (js_includes mechanism ''External Event'')
                  (js_includes mechanism ''Contextual Discovery'') of
        Inl e \<Rightarrow> Inl e
      | Inr True \<Rightarrow> Inr chain_external_event
      | Inr False \<Rightarrow>
     (case js_and (js_includes mechanism ''Author Series Continuation'')
                  (js_not (js_includes mechanism ''Possible'')) of
        Inl e \<Rightarrow> Inl e
      | Inr True \<Rightarrow> Inr chain_series_continuation
      | Inr False \<Rightarrow>
     (case js_includes mechanism ''Author Self-Promotion'' of
        Inl e \<Rightarrow> Inl e
      | Inr True \<Rightarrow> Inr chain_self_promotion
      | Inr False \<Rightarrow>
          if mechanism = JStr ''New User Discovery''
          then Inr chain_new_user_discovery
          else Inr [])))))"

section \<open>The session\<close>

text \<open>
  The global variables of \<^verbatim>\<open>app.js\<close> that the authentication path writes, and the three
  parts of the page it changes: the text of \<^verbatim>\<open>#password-error\<close> and the class
  \<^verbatim>\<open>hidden\<close> of \<^verbatim>\<open>#password-modal\<close> and of \<^verbatim>\<open>#main-app\<close>. The field \<open>trace\<close> is not in
  the source: it records, in order, each completed fetch, each call of \<^verbatim>\<open>decryptData\<close>
  with its arguments, and each call of a rendering function. The last constructor of
  \<open>ui_function\<close> stands for the line
  \<^verbatim>\<open>console.log(`Loaded ${lateAwakeningCases.length} late awakening cases`)\<close>, which throws
  when the value of \<^verbatim>\<open>length\<close> cannot be converted to a text.
\<close>

datatype ui_function =
    InitializeTabs
  | RenderOverview
  | PopulateCaseSelector
  | PopulateLateCaseSelector
  | RenderLateAwakeningTable
  | LogLoadedCases

datatype event =
    Fetched string "js_error + jsval"
  | DecryptCall jsval jsval jsval
  | UiCall ui_function

record app_state =
  casesData :: jsval
  metadata :: jsval
  lateAwakeningData :: jsval
  lateAwakeningCases :: jsval
  storedPassword :: jsval
  password_error :: string
  modal_hidden :: bool
  app_hidden :: bool
  trace :: "event list"

text \<open>The initial values of the globals (the page itself is not constrained).\<close>

definition initial :: "app_state \<Rightarrow> bool" where
  "initial s \<longleftrightarrow>
     casesData s = JArr [] \<and> metadata s = JArr [] \<and> lateAwakeningData s = JArr [] \<and>
     lateAwakeningCases s = JArr [] \<and> storedPassword s = JNull \<and> trace s = []"

text \<open>
  What one run of \<^verbatim>\<open>submitPassword\<close> finds outside the program: the value of the password
  field, the outcome of \<^verbatim>\<open>await fetch(url)\<close> followed by \<^verbatim>\<open>await response.json()\<close> for each
  address (the parsed body, or the rejection of either promise), and whether each rendering
  function returns or throws. The rendering functions write to the page only, never to
  the globals above. Handlers of other events that could run while a fetch is awaited are
  not modelled.
\<close>

record env =
  password_input :: string
  fetch_json :: "string \<Rightarrow> js_error + jsval"
  ui :: "ui_function \<Rightarrow> app_state \<Rightarrow> js_error option"

definition log_event :: "event \<Rightarrow> app_state \<Rightarrow> app_state" where
  "log_event ev s = s\<lparr>trace := trace s @ [ev]\<rparr>"

definition fetched :: "env \<Rightarrow> string \<Rightarrow> app_state \<Rightarrow> app_state" where
  "fetched en url s = log_event (Fetched url (fetch_json en url)) s"

text \<open>
  The inner \<^verbatim>\<open>try\<close> block of \<^verbatim>\<open>loadLateAwakeningData\<close>, with its \<^verbatim>\<open>catch\<close>: the second
  dataset is decrypted with \<^verbatim>\<open>storedPassword\<close>. An exception (a failed fetch, the logging
  line or \<^verbatim>\<open>populateLateCaseSelector\<close> throwing) ends the block and is only logged to the
  console.
\<close>

definition load_late_cases :: "platform \<Rightarrow> env \<Rightarrow> app_state \<Rightarrow> app_state" where
  "load_late_cases rt en s0 =
     (let s1 = fetched en ''data/encryption_config.json'' s0 in
      case fetch_json en ''data/encryption_config.json'' of
        Inl e \<Rightarrow> s1
      | Inr config \<Rightarrow>
     (let s2 = fetched en ''data/late_awakening_cases.encrypted'' s1 in
      case fetch_json en ''data/late_awakening_cases.encrypted'' of
        Inl e \<Rightarrow> s2
      | Inr encrypted \<Rightarrow>
     (let s3 = log_event (DecryptCall encrypted (storedPassword s2) config) s2;
          decrypted = decryptData rt encrypted (storedPassword s2) config
      in if truthy decrypted
         then
           (let s4 = s3\<lparr>lateAwakeningCases := decrypted\<rparr> in
            case ui en LogLoadedCases s4 of
              Some e \<Rightarrow> s4
            | None \<Rightarrow> log_event (UiCall PopulateLateCaseSelector) s4)
         else s3)))"

text \<open>
  \<^verbatim>\<open>loadLateAwakeningData\<close>: every exception is caught inside, so the call always returns.
\<close>

definition loadLateAwakeningData :: "platform \<Rightarrow> env \<Rightarrow> app_state \<Rightarrow> app_state" where
  "loadLateAwakeningData rt en s0 =
     (let s1 = fetched en ''data/late_awakening_top20.json'' s0 in
      case fetch_json en ''data/late_awakening_top20.json'' of
        Inl e \<Rightarrow> s1
      | Inr d \<Rightarrow>
          log_event (UiCall RenderLateAwakeningTable)
            (load_late_cases rt en (s1\<lparr>lateAwakeningData := d\<rparr>)))"

text \<open>
  \<^verbatim>\<open>initializeApp\<close>: three rendering calls, then \<^verbatim>\<open>await loadLateAwakeningData()\<close>. The
  result is the exception that rejects the promise of this asynchronous function, if any,
  and the state.
\<close>

definition initializeApp :: "platform \<Rightarrow> env \<Rightarrow> app_state \<Rightarrow> js_error option \<times> app_state" where
  "initializeApp rt en s0 =
     (let s1 = log_event (UiCall InitializeTabs) s0 in
      case ui en InitializeTabs s0 of
        Some e \<Rightarrow> (Some e, s1)
      | None \<Rightarrow>
     (let s2 = log_event (UiCall RenderOverview) s1 in
      case ui en RenderOverview s1 of
        Some e \<Rightarrow> (Some e, s2)
      | None \<Rightarrow>
     (let s3 = log_event (UiCall PopulateCaseSelector) s2 in
      case ui en PopulateCaseSelector s2 of
        Some e \<Rightarrow> (Some e, s3)
      | None \<Rightarrow> (None, loadLateAwakeningData rt en s3))))"

text \<open>
  The \<^verbatim>\<open>try\<close> block of \<^verbatim>\<open>submitPassword\<close>: the configuration and the envelope are
  fetched, \<^verbatim>\<open>decryptData\<close> is called, and a truthy result is stored together with the
  password before the metadata is fetched and the application is shown. The last
  statement, \<^verbatim>\<open>initializeApp()\<close>, is not awaited: an exception inside \<^verbatim>\<open>initializeApp\<close>
  rejects a promise that nobody handles and does not reach the \<^verbatim>\<open>catch\<close> block. The model
  runs the call to its end as part of the attempt.
\<close>

definition submit_try :: "platform \<Rightarrow> env \<Rightarrow> string \<Rightarrow> app_state \<Rightarrow> js_error option \<times> app_state" where
  "submit_try rt en password s0 =
     (let s1 = fetched en ''data/encryption_config.json'' s0 in
      case fetch_json en ''data/encryption_config.json'' of
        Inl e \<Rightarrow> (Some e, s1)
      | Inr config \<Rightarrow>
     (let s2 = fetched en ''data/cases.encrypted'' s1 in
      case fetch_json en ''data/cases.encrypted'' of
        Inl e \<Rightarrow> (Some e, s2)
      | Inr encrypted \<Rightarrow>
     (let s3 = log_event (DecryptCall encrypted (JStr password) config) s2;
          decrypted = decryptData rt encrypted (JStr password) config
      in if truthy decrypted
         then
           (let s4 = s3\<lparr>casesData := decrypted, storedPassword := JStr password\<rparr>;
                s5 = fetched en ''data/metadata.json'' s4
            in case fetch_json en ''data/metadata.json'' of
                 Inl e \<Rightarrow> (Some e, s5)
               | Inr md \<Rightarrow>
                   (None, snd (initializeApp rt en
                      (s5\<lparr>metadata := md, modal_hidden := True, app_hidden := False\<rparr>))))
         else (None, s3\<lparr>password_error := ''Incorrect password. Please try again.''\<rparr>))))"

text \<open>\<^verbatim>\<open>submitPassword\<close>: an empty password is refused before anything is fetched.\<close>

definition submitPassword :: "platform \<Rightarrow> env \<Rightarrow> app_state \<Rightarrow> app_state" where
  "submitPassword rt en s =
     (let password = password_input en in
      if password = [] then s\<lparr>password_error := ''Please enter a password''\<rparr>
      else
        (case submit_try rt en password (s\<lparr>password_error := ''Decrypting...''\<rparr>) of
           (None, s') \<Rightarrow> s'
         | (Some e, s') \<Rightarrow> s'\<lparr>password_error := ''Error loading data. Please check the console.''\<rparr>))"

text \<open>The states of a session: any number of submit attempts from an initial state.\<close>

inductive reachable :: "platform \<Rightarrow> app_state \<Rightarrow> bool" for rt :: platform where
  reachable_initial: "initial s \<Longrightarrow> reachable rt s"
| reachable_submit: "reachable rt s \<Longrightarrow> reachable rt (submitPassword rt en s)"

section \<open>The asynchronous functions as resumable tasks\<close>

text \<open>
  \<^verbatim>\<open>submitPassword\<close>, \<^verbatim>\<open>initializeApp\<close> and \<^verbatim>\<open>loadLateAwakeningData\<close> are \<^verbatim>\<open>async\<close> functions:
  at every \<^verbatim>\<open>await\<close> the function is suspended, and it resumes when the awaited fetch has
  completed. A task is the rest of such a function: it is finished, or it runs a block of
  assignments, or it waits for the fetch of an address and continues with the outcome, or
  it calls \<^verbatim>\<open>decryptData\<close> on three arguments computed from the state of that moment and
  continues with the result, or it calls a rendering function and continues with what the
  call throws, if anything, or it executes the logging line of
  \<^verbatim>\<open>loadLateAwakeningData\<close>. A task does not contain the libraries nor the network:
  both belong to the interpreter below.
\<close>

datatype task =
    Done
  | Sync "app_state \<Rightarrow> app_state" task
  | Await string "js_error + jsval \<Rightarrow> task"
  | Decrypt "app_state \<Rightarrow> jsval \<times> jsval \<times> jsval" "jsval \<Rightarrow> task"
  | Call ui_function "js_error option \<Rightarrow> task"
  | Console "js_error option \<Rightarrow> task"

text \<open>
  The inner \<^verbatim>\<open>try\<close> block of \<^verbatim>\<open>loadLateAwakeningData\<close> with its \<^verbatim>\<open>catch\<close>, followed by
  \<open>rest\<close>. The password given to \<^verbatim>\<open>decryptData\<close> is the value that \<^verbatim>\<open>storedPassword\<close> has
  when the call is made.
\<close>

definition load_late_cases_task :: "task \<Rightarrow> task" where
  "load_late_cases_task rest =
     Await ''data/encryption_config.json'' (\<lambda>r. case r of
        Inl e \<Rightarrow> rest
      | Inr config \<Rightarrow>
     Await ''data/late_awakening_cases.encrypted'' (\<lambda>r. case r of
        Inl e \<Rightarrow> rest
      | Inr encrypted \<Rightarrow>
     Decrypt (\<lambda>s. (encrypted, storedPassword s, config)) (\<lambda>decrypted.
       if truthy decrypted
       then Sync (\<lambda>s. s\<lparr>lateAwakeningCases := decrypted\<rparr>)
              (Console (\<lambda>r. case r of
                 Some e \<Rightarrow> rest
               | None \<Rightarrow> Call PopulateLateCaseSelector (\<lambda>r. rest)))
       else rest)))"

text \<open>\<^verbatim>\<open>loadLateAwakeningData\<close>, followed by \<open>rest\<close>.\<close>

definition loadLateAwakeningData_task :: "task \<Rightarrow> task" where
  "loadLateAwakeningData_task rest =
     Await ''data/late_awakening_top20.json'' (\<lambda>r. case r of
        Inl e \<Rightarrow> rest
      | Inr d \<Rightarrow>
          Sync (\<lambda>s. s\<lparr>lateAwakeningData := d\<rparr>)
            (load_late_cases_task (Call RenderLateAwakeningTable (\<lambda>r. rest))))"

text \<open>
  \<^verbatim>\<open>initializeApp\<close>. An exception of a rendering function ends the task: the promise of
  \<^verbatim>\<open>initializeApp\<close> is rejected and nobody handles it.
\<close>

definition initializeApp_task :: task where
  "initializeApp_task =
     Call InitializeTabs (\<lambda>r. case r of
        Some e \<Rightarrow> Done
      | None \<Rightarrow>
     Call RenderOverview (\<lambda>r. case r of
        Some e \<Rightarrow> Done
      | None \<Rightarrow>
     Call PopulateCaseSelector (\<lambda>r. case r of
        Some e \<Rightarrow> Done
      | None \<Rightarrow> loadLateAwakeningData_task Done)))"

text \<open>The \<^verbatim>\<open>catch\<close> block of \<^verbatim>\<open>submitPassword\<close>.\<close>

definition submit_catch :: task where
  "submit_catch =
     Sync (\<lambda>s. s\<lparr>password_error := ''Error loading data. Please check the console.''\<rparr>) Done"

text \<open>\<^verbatim>\<open>submitPassword\<close>, for the password read from the password field.\<close>

definition submitPassword_task :: "string \<Rightarrow> task" where
  "submitPassword_task password =
     (if password = [] then Sync (\<lambda>s. s\<lparr>password_error := ''Please enter a password''\<rparr>) Done
      else
        Sync (\<lambda>s. s\<lparr>password_error := ''Decrypting...''\<rparr>)
       (Await ''data/encryption_config.json'' (\<lambda>r. case r of
          Inl e \<Rightarrow> submit_catch
        | Inr config \<Rightarrow>
        Await ''data/cases.encrypted'' (\<lambda>r. case r of
          Inl e \<Rightarrow> submit_catch
        | Inr encrypted \<Rightarrow>
        Decrypt (\<lambda>s. (encrypted, JStr password, config)) (\<lambda>decrypted.
          if truthy decrypted
          then
            Sync (\<lambda>s. s\<lparr>casesData := decrypted, storedPassword := JStr password\<rparr>)
           (Await ''data/metadata.json'' (\<lambda>r. case r of
              Inl e \<Rightarrow> submit_catch
            | Inr md \<Rightarrow>
                Sync (\<lambda>s. s\<lparr>metadata := md, modal_hidden := True, app_hidden := False\<rparr>)
                  initializeApp_task))
          else
            Sync (\<lambda>s. s\<lparr>password_error := ''Incorrect password. Please try again.''\<rparr>)
              Done)))))"

text \<open>
  The interpreter. It runs a task as far as it can when only the first \<open>n\<close> awaited
  fetches complete, and returns the state reached and the address the task is then waiting
  for, if it is not finished. The interpreter, not the task, writes the trace: a fetch is
  recorded when it completes, a call of \<^verbatim>\<open>decryptData\<close> or of a rendering function when it
  is made, so that an event is in the trace exactly when the interpreter has performed it.
\<close>

primrec advance :: "platform \<Rightarrow> env \<Rightarrow> task \<Rightarrow> nat \<Rightarrow> app_state \<Rightarrow> app_state \<times> string option" where
  "advance rt en Done = (\<lambda>n s. (s, None))"
| "advance rt en (Sync f t) = (\<lambda>n s. advance rt en t n (f s))"
| "advance rt en (Await url k) = (\<lambda>n s. case n of
       0 \<Rightarrow> (s, Some url)
     | Suc m \<Rightarrow>
         advance rt en (k (fetch_json en url)) m
           (log_event (Fetched url (fetch_json en url)) s))"
| "advance rt en (Decrypt args k) = (\<lambda>n s. case args s of
       (encrypted, password, config) \<Rightarrow>
         advance rt en (k (decryptData rt encrypted password config)) n
           (log_event (DecryptCall encrypted password config) s))"
| "advance rt en (Call f k) = (\<lambda>n s. advance rt en (k (ui en f s)) n (log_event (UiCall f) s))"
| "advance rt en (Console k) = (\<lambda>n s. advance rt en (k (ui en LogLoadedCases s)) n s)"

text \<open>The same with every fetch completing: the state in which the task finishes.\<close>

primrec run :: "platform \<Rightarrow> env \<Rightarrow> task \<Rightarrow> app_state \<Rightarrow> app_state" where
  "run rt en Done = (\<lambda>s. s)"
| "run rt en (Sync f t) = (\<lambda>s. run rt en t (f s))"
| "run rt en (Await url k) = (\<lambda>s.
     run rt en (k (fetch_json en url)) (log_event (Fetched url (fetch_json en url)) s))"
| "run rt en (Decrypt args k) = (\<lambda>s. case args s of
       (encrypted, password, config) \<Rightarrow>
         run rt en (k (decryptData rt encrypted password config))
           (log_event (DecryptCall encrypted password config) s))"
| "run rt en (Call f k) = (\<lambda>s. run rt en (k (ui en f s)) (log_event (UiCall f) s))"
| "run rt en (Console k) = (\<lambda>s. run rt en (k (ui en LogLoadedCases s)) s)"

section \<open>The reference encryptor\<close>

text \<open>
  Modelled from the spec: the configuration record of the data model (key size in bits,
  iteration count, hash algorithm) and the file it is stored in,
  \<^verbatim>\<open>{keySize: int (bits), iterations: int, hasher: string}\<close>. The offline converter
  \<^verbatim>\<open>convert_data.py\<close> that writes this file is not among the sources.
\<close>

record EncryptionConfig =
  keySizeBits :: int
  iterationCount :: int
  hashAlgorithm :: hash_algo

fun algo_name :: "hash_algo \<Rightarrow> string" where
  "algo_name MD5 = ''MD5''"
| "algo_name SHA1 = ''SHA1''"
| "algo_name SHA224 = ''SHA224''"
| "algo_name SHA256 = ''SHA256''"
| "algo_name SHA384 = ''SHA384''"
| "algo_name SHA512 = ''SHA512''"
| "algo_name SHA3 = ''SHA3''"
| "algo_name RIPEMD160 = ''RIPEMD160''"

definition config_file :: "EncryptionConfig \<Rightarrow> jsval" where
  "config_file cfg =
     JObj [(''keySize'', JNum (Num (of_int (keySizeBits cfg)))),
           (''iterations'', JNum (Num (of_int (iterationCount cfg)))),
           (''hasher'', JStr (algo_name (hashAlgorithm cfg)))]"

text \<open>
  Modelled from the spec: the primitives of the encrypting side (text to UTF-8 bytes,
  the block cipher in chained-block mode with standard padding, bytes to base64), which
  belong to the offline converter \<^verbatim>\<open>convert_data.py\<close>, not among the sources.
\<close>

record encryptor =
  Utf8_parse :: "string \<Rightarrow> wordarray"
  AES_encrypt :: "wordarray \<Rightarrow> wordarray \<Rightarrow> wordarray \<Rightarrow> wordarray"
  Base64_stringify :: "wordarray \<Rightarrow> string"

text \<open>
  Modelled from the spec: the reference encryptor of \<^verbatim>\<open>convert_data.py\<close>, not among the
  sources. The key is derived from the password, the salt and the three parameters of the
  configuration (a key of \<open>keySizeBits\<close> bits is \<open>keySizeBits / 32\<close> words); the plaintext
  is encrypted under that key and the initialization vector; the envelope holds the
  ciphertext, the initialization vector and the salt, each in base64.
\<close>

definition reference_encrypt ::
  "platform \<Rightarrow> encryptor \<Rightarrow> EncryptionConfig \<Rightarrow> string \<Rightarrow> wordarray \<Rightarrow> wordarray \<Rightarrow> string
     \<Rightarrow> js_error + jsval" where
  "reference_encrypt rt enc cfg password salt_wa iv_wa plaintext =
     (case PBKDF2 rt (JStr password) salt_wa
             \<lparr>keySize = Num (of_int (keySizeBits cfg) / 32),
              iterations = JNum (Num (of_int (iterationCount cfg))),
              hasher = hashAlgorithm cfg\<rparr> of
        Inl e \<Rightarrow> Inl e
      | Inr key \<Rightarrow>
          Inr (JObj
            [(''ciphertext'',
                JStr (Base64_stringify enc (AES_encrypt enc (Utf8_parse enc plaintext) key iv_wa))),
             (''iv'', JStr (Base64_stringify enc iv_wa)),
             (''salt'', JStr (Base64_stringify enc salt_wa))]))"


section \<open>A small platform to run the model on\<close>

text \<open>
  An instance of the two records, small enough to evaluate: bytes are written as the
  characters with the same code; the key is one byte computed from the password, the salt,
  the key size, the iteration count and the hash algorithm (and no byte at all when the
  key size is not a finite number); the cipher adds the key byte and the bytes of the
  initialization vector to every byte; the parser knows seven JSON texts (on which it
  agrees with \<^verbatim>\<open>JSON.parse\<close>) and rejects the rest.
\<close>

definition sample_bytes :: "string \<Rightarrow> wordarray" where
  "sample_bytes s = map of_char s"

definition sample_text :: "wordarray \<Rightarrow> string" where
  "sample_text w = map (\<lambda>b. char_of (uint b)) w"

fun sample_hash_tag :: "hash_algo \<Rightarrow> 8 word" where
  "sample_hash_tag MD5 = 1"
| "sample_hash_tag SHA1 = 2"
| "sample_hash_tag SHA224 = 3"
| "sample_hash_tag SHA256 = 4"
| "sample_hash_tag SHA384 = 5"
| "sample_hash_tag SHA512 = 6"
| "sample_hash_tag SHA3 = 7"
| "sample_hash_tag RIPEMD160 = 8"

fun sample_count :: "jsval \<Rightarrow> 8 word" where
  "sample_count (JNum (Num r)) = word_of_int \<lfloor>r\<rfloor>"
| "sample_count v = 0"

definition sample_kdf :: "jsval \<Rightarrow> wordarray \<Rightarrow> pbkdf2_cfg \<Rightarrow> js_error + wordarray" where
  "sample_kdf password salt_wa opts =
     (case password of
        JStr p \<Rightarrow>
          (case keySize opts of
             Num r \<Rightarrow>
               Inr [sum_list (sample_bytes p) + sum_list salt_wa + word_of_int \<lfloor>r\<rfloor>
                      + sample_count (iterations opts) + sample_hash_tag (hasher opts)]
           | _ \<Rightarrow> Inr [])
      | _ \<Rightarrow> Inl TypeError)"

definition sample_shift :: "wordarray \<Rightarrow> wordarray \<Rightarrow> 8 word" where
  "sample_shift key iv_wa = (case key of [] \<Rightarrow> 0 | k # _ \<Rightarrow> k) + sum_list iv_wa"

definition sample_parse :: "string \<Rightarrow> js_error + jsval" where
  "sample_parse s =
     (if s = ''null'' then Inr JNull
      else if s = ''false'' then Inr (JBool False)
      else if s = ''0'' then Inr (JNum (Num 0))
      else if s = ''\"\"'' then Inr (JStr [])
      else if s = ''1'' then Inr (JNum (Num 1))
      else if s = ''[]'' then Inr (JArr [])
      else if s = ''[1]'' then Inr (JArr [JNum (Num 1)])
      else Inl SyntaxError)"

definition sample_platform :: platform where
  "sample_platform =
     \<lparr>Base64_parse = (\<lambda>v. case v of JStr s \<Rightarrow> Inr (sample_bytes s) | _ \<Rightarrow> Inl TypeError),
      PBKDF2 = sample_kdf,
      AES_decrypt = (\<lambda>ct key opts. Inr (map (\<lambda>b. b - sample_shift key (iv opts)) ct)),
      Utf8_stringify = (\<lambda>w. Inr (sample_text w)),
      JSON_parse = sample_parse,
      StringToNumber = (\<lambda>s. NaN),
      ArrayToNumber = (\<lambda>xs. Inr NaN)\<rparr>"

definition sample_encryptor :: encryptor where
  "sample_encryptor =
     \<lparr>Utf8_parse = sample_bytes,
      AES_encrypt = (\<lambda>pt key iv_wa. map (\<lambda>b. b + sample_shift key iv_wa) pt),
      Base64_stringify = sample_text\<rparr>"

text \<open>The configuration of the spec's scenario, and one naming another hash algorithm.\<close>

definition scenario_config :: EncryptionConfig where
  "scenario_config = \<lparr>keySizeBits = 256, iterationCount = 100000, hashAlgorithm = SHA256\<rparr>"

definition sha512_config :: EncryptionConfig where
  "sha512_config = \<lparr>keySizeBits = 256, iterationCount = 100000, hashAlgorithm = SHA512\<rparr>"

section \<open>Reading the trace\<close>

text \<open>
  A list of events is in order for the password \<open>pw\<close> when every call of \<^verbatim>\<open>decryptData\<close> in
  it is made with \<open>pw\<close> and comes directly after the completed fetch of its configuration
  and the completed fetch of its envelope, in this order.
\<close>

definition decrypt_calls_ok :: "env \<Rightarrow> jsval \<Rightarrow> event list \<Rightarrow> bool" where
  "decrypt_calls_ok en pw evs \<longleftrightarrow>
     (\<forall>pre e p c post. evs = pre @ DecryptCall e p c # post \<longrightarrow>
        p = pw \<and>
        (\<exists>pre' url.
           pre = pre' @ [Fetched ''data/encryption_config.json'' (Inr c), Fetched url (Inr e)] \<and>
           fetch_json en ''data/encryption_config.json'' = Inr c \<and>
           fetch_json en url = Inr e \<and>
           (url = ''data/cases.encrypted'' \<or> url = ''data/late_awakening_cases.encrypted'')))"

text \<open>
  The stored password has been verified: either nothing has been stored yet, or the stored
  data are what some call of \<^verbatim>\<open>decryptData\<close> with the stored password has returned, and
  they are truthy.
\<close>

definition verified :: "platform \<Rightarrow> app_state \<Rightarrow> bool" where
  "verified rt s \<longleftrightarrow>
     (storedPassword s = JNull \<and> casesData s = JArr []) \<or>
     (\<exists>e c. DecryptCall e (storedPassword s) c \<in> set (trace s) \<and>
            casesData s = decryptData rt e (storedPassword s) c \<and>
            truthy (casesData s))"

section \<open>A sample session\<close>

text \<open>
  The envelope that the reference encryptor produces on the small platform for the
  plaintext \<^verbatim>\<open>[1]\<close>, the password \<^verbatim>\<open>ab\<close>, the salt \<open>[1, 2]\<close> and the initialization vector
  \<open>[3]\<close> under the configuration of the scenario; the same for the plaintext \<^verbatim>\<open>0\<close> and for
  the empty plaintext.
\<close>

definition sample_envelope :: jsval where
  "sample_envelope =
     JObj [(''ciphertext'', JStr [CHR 0xD0, CHR 0xA6, CHR 0xD2]),
           (''iv'', JStr [CHR 0x03]),
           (''salt'', JStr [CHR 0x01, CHR 0x02])]"

definition zero_envelope :: jsval where
  "zero_envelope =
     JObj [(''ciphertext'', JStr [CHR 0xA5]),
           (''iv'', JStr [CHR 0x03]),
           (''salt'', JStr [CHR 0x01, CHR 0x02])]"


text \<open>An envelope that has lost its ciphertext.\<close>

definition damaged_envelope :: jsval where
  "damaged_envelope =
     JObj [(''iv'', JStr [CHR 0x03]),
           (''salt'', JStr [CHR 0x01, CHR 0x02])]"

text \<open>
  A server that has the configuration, the envelope and an empty metadata file and nothing
  else, and one that cannot be reached.
\<close>

definition sample_server :: "jsval \<Rightarrow> jsval \<Rightarrow> string \<Rightarrow> js_error + jsval" where
  "sample_server config envelope url =
     (if url = ''data/encryption_config.json'' then Inr config
      else if url = ''data/cases.encrypted'' then Inr envelope
      else if url = ''data/metadata.json'' then Inr (JArr [])
      else Inl (Error ''Failed to fetch''))"

text \<open>The same server with the two files of the second dataset.\<close>

definition full_server :: "jsval \<Rightarrow> jsval \<Rightarrow> jsval \<Rightarrow> string \<Rightarrow> js_error + jsval" where
  "full_server config envelope late url =
     (if url = ''data/late_awakening_top20.json'' then Inr (JArr [])
      else if url = ''data/late_awakening_cases.encrypted'' then Inr late
      else sample_server config envelope url)"

definition offline_server :: "string \<Rightarrow> js_error + jsval" where
  "offline_server url = Inl (Error ''Failed to fetch'')"

definition sample_env :: "string \<Rightarrow> (string \<Rightarrow> js_error + jsval) \<Rightarrow> env" where
  "sample_env password server =
     \<lparr>password_input = password, fetch_json = server, ui = (\<lambda>f s. None)\<rparr>"

definition sample_initial :: app_state where
  "sample_initial =
     \<lparr>casesData = JArr [], metadata = JArr [], lateAwakeningData = JArr [],
      lateAwakeningCases = JArr [], storedPassword = JNull, password_error = [],
      modal_hidden = False, app_hidden = True, trace = []\<rparr>"

text \<open>A configuration file without the fields \<^verbatim>\<open>keySize\<close> and \<^verbatim>\<open>iterations\<close>.\<close>

definition incomplete_config :: jsval where
  "incomplete_config = JObj [(''hasher'', JStr ''SHA256'')]"

section \<open>Evaluating the small platform\<close>

lemmas sample_defs =
  sample_platform_def sample_encryptor_def sample_kdf_def sample_bytes_def sample_text_def
  sample_shift_def sample_parse_def scenario_config_def sha512_config_def config_file_def
  reference_encrypt_def char_of_def

lemmas decrypt_defs =
  decryptData_def decryptedStr_def parse_field_def derive_key_def pbkdf2_options_def






section \<open>What \<^verbatim>\<open>decryptData\<close> returns\<close>

lemma decryptData_failed:
  "decryptedStr rt encrypted password config = Inl e \<Longrightarrow>
   decryptData rt encrypted password config = JNull"
  by (simp add: decryptData_def)

lemma decryptData_unparsable:
  "decryptedStr rt encrypted password config = Inr str \<Longrightarrow> JSON_parse rt str = Inl e \<Longrightarrow>
   decryptData rt encrypted password config = JNull"
  by (simp add: decryptData_def)

lemma decryptData_parsed:
  "decryptedStr rt encrypted password config = Inr str \<Longrightarrow> JSON_parse rt str = Inr v \<Longrightarrow>
   decryptData rt encrypted password config = v"
  by (simp add: decryptData_def)

lemma truthy_not_null: "truthy v \<Longrightarrow> v \<noteq> JNull"
  by auto

section \<open>The outcomes of a submit attempt\<close>

lemma submit_empty:
  assumes "password_input en = []"
  shows "submitPassword rt en s = s\<lparr>password_error := ''Please enter a password''\<rparr>"
  using assms by (simp add: submitPassword_def)

lemma submit_config_fails:
  assumes "password_input en \<noteq> []"
    and "fetch_json en ''data/encryption_config.json'' = Inl err"
  shows "submitPassword rt en s =
    s\<lparr>password_error := ''Error loading data. Please check the console.'',
      trace := trace s @ [Fetched ''data/encryption_config.json'' (Inl err)]\<rparr>"
  using assms
  by (simp add: submitPassword_def submit_try_def fetched_def log_event_def)

lemma submit_envelope_fails:
  assumes "password_input en \<noteq> []"
    and "fetch_json en ''data/encryption_config.json'' = Inr config"
    and "fetch_json en ''data/cases.encrypted'' = Inl err"
  shows "submitPassword rt en s =
    s\<lparr>password_error := ''Error loading data. Please check the console.'',
      trace := trace s @ [Fetched ''data/encryption_config.json'' (Inr config),
                          Fetched ''data/cases.encrypted'' (Inl err)]\<rparr>"
  using assms
  by (simp add: submitPassword_def submit_try_def fetched_def log_event_def)

lemma submit_rejected:
  assumes "password_input en \<noteq> []"
    and "fetch_json en ''data/encryption_config.json'' = Inr config"
    and "fetch_json en ''data/cases.encrypted'' = Inr encrypted"
    and "\<not> truthy (decryptData rt encrypted (JStr (password_input en)) config)"
  shows "submitPassword rt en s =
    s\<lparr>password_error := ''Incorrect password. Please try again.'',
      trace := trace s @ [Fetched ''data/encryption_config.json'' (Inr config),
                          Fetched ''data/cases.encrypted'' (Inr encrypted),
                          DecryptCall encrypted (JStr (password_input en)) config]\<rparr>"
  using assms
  by (simp add: submitPassword_def submit_try_def fetched_def log_event_def Let_def)

lemma submit_metadata_fails:
  assumes "password_input en \<noteq> []"
    and "fetch_json en ''data/encryption_config.json'' = Inr config"
    and "fetch_json en ''data/cases.encrypted'' = Inr encrypted"
    and "truthy (decryptData rt encrypted (JStr (password_input en)) config)"
    and "fetch_json en ''data/metadata.json'' = Inl err"
  shows "submitPassword rt en s =
    s\<lparr>casesData := decryptData rt encrypted (JStr (password_input en)) config,
      storedPassword := JStr (password_input en),
      password_error := ''Error loading data. Please check the console.'',
      trace := trace s @ [Fetched ''data/encryption_config.json'' (Inr config),
                          Fetched ''data/cases.encrypted'' (Inr encrypted),
                          DecryptCall encrypted (JStr (password_input en)) config,
                          Fetched ''data/metadata.json'' (Inl err)]\<rparr>"
  using assms
  by (simp add: submitPassword_def submit_try_def fetched_def log_event_def Let_def)

section \<open>The order of events\<close>

lemma decrypt_calls_ok_Nil: "decrypt_calls_ok en pw []"
  by (simp add: decrypt_calls_ok_def)

lemma decrypt_calls_ok_Fetched: "decrypt_calls_ok en pw [Fetched url r]"
  by (simp add: decrypt_calls_ok_def append_eq_Cons_conv Cons_eq_append_conv)

lemma decrypt_calls_ok_UiCall: "decrypt_calls_ok en pw [UiCall f]"
  by (simp add: decrypt_calls_ok_def append_eq_Cons_conv Cons_eq_append_conv)

lemma decrypt_calls_ok_call:
  assumes "fetch_json en ''data/encryption_config.json'' = Inr c"
    and "fetch_json en url = Inr e"
    and "url = ''data/cases.encrypted'' \<or> url = ''data/late_awakening_cases.encrypted''"
  shows "decrypt_calls_ok en pw
    [Fetched ''data/encryption_config.json'' (Inr c), Fetched url (Inr e), DecryptCall e pw c]"
  unfolding decrypt_calls_ok_def
proof (intro allI impI)
  fix pre e' p c' post
  assume eq: "[Fetched ''data/encryption_config.json'' (Inr c), Fetched url (Inr e),
      DecryptCall e pw c] = pre @ DecryptCall e' p c' # post"
  then have "pre = [Fetched ''data/encryption_config.json'' (Inr c), Fetched url (Inr e)]
      \<and> e' = e \<and> p = pw \<and> c' = c"
    by (auto simp add: Cons_eq_append_conv)
  with assms show "p = pw \<and>
        (\<exists>pre' url.
           pre = pre' @ [Fetched ''data/encryption_config.json'' (Inr c'), Fetched url (Inr e')] \<and>
           fetch_json en ''data/encryption_config.json'' = Inr c' \<and>
           fetch_json en url = Inr e' \<and>
           (url = ''data/cases.encrypted'' \<or> url = ''data/late_awakening_cases.encrypted''))"
    by auto
qed

lemma decrypt_calls_ok_append:
  assumes a: "decrypt_calls_ok en pw as" and b: "decrypt_calls_ok en pw bs"
  shows "decrypt_calls_ok en pw (as @ bs)"
  unfolding decrypt_calls_ok_def
proof (intro allI impI)
  fix pre e p c post
  assume eq: "as @ bs = pre @ DecryptCall e p c # post"
  then obtain us where
    "(as = pre @ us \<and> us @ bs = DecryptCall e p c # post) \<or>
     (as @ us = pre \<and> bs = us @ DecryptCall e p c # post)"
    by (auto simp add: append_eq_append_conv2)
  then show "p = pw \<and>
        (\<exists>pre' url.
           pre = pre' @ [Fetched ''data/encryption_config.json'' (Inr c), Fetched url (Inr e)] \<and>
           fetch_json en ''data/encryption_config.json'' = Inr c \<and>
           fetch_json en url = Inr e \<and>
           (url = ''data/cases.encrypted'' \<or> url = ''data/late_awakening_cases.encrypted''))"
  proof
    assume left: "as = pre @ us \<and> us @ bs = DecryptCall e p c # post"
    show ?thesis
    proof (cases us)
      case Nil
      with left have "bs = [] @ DecryptCall e p c # post" by simp
      with b show ?thesis
        unfolding decrypt_calls_ok_def by blast
    next
      case (Cons u us')
      with left have "as = pre @ DecryptCall e p c # us'" by simp
      with a show ?thesis
        unfolding decrypt_calls_ok_def by blast
    qed
  next
    assume right: "as @ us = pre \<and> bs = us @ DecryptCall e p c # post"
    with b obtain pre' url where
      "p = pw" and "us = pre' @ [Fetched ''data/encryption_config.json'' (Inr c), Fetched url (Inr e)]"
      and "fetch_json en ''data/encryption_config.json'' = Inr c" and "fetch_json en url = Inr e"
      and "url = ''data/cases.encrypted'' \<or> url = ''data/late_awakening_cases.encrypted''"
      unfolding decrypt_calls_ok_def by blast
    with right show ?thesis
      by (intro conjI exI [of _ "as @ pre'"] exI [of _ url]) auto
  qed
qed

lemmas decrypt_calls_ok_intros =
  decrypt_calls_ok_Nil decrypt_calls_ok_Fetched decrypt_calls_ok_UiCall
  decrypt_calls_ok_call decrypt_calls_ok_append

section \<open>Loading the second dataset\<close>

lemma load_late_cases_trace:
  "\<exists>evs. trace (load_late_cases rt en s) = trace s @ evs \<and>
         decrypt_calls_ok en (storedPassword s) evs"
proof (cases "fetch_json en ''data/encryption_config.json''")
  case (Inl err)
  then have "trace (load_late_cases rt en s) =
      trace s @ [Fetched ''data/encryption_config.json'' (Inl err)]"
    by (simp add: load_late_cases_def fetched_def log_event_def)
  then show ?thesis
    using decrypt_calls_ok_Fetched by blast
next
  case config: (Inr config)
  show ?thesis
  proof (cases "fetch_json en ''data/late_awakening_cases.encrypted''")
    case (Inl err)
    with config have "trace (load_late_cases rt en s) =
        trace s @ ([Fetched ''data/encryption_config.json'' (Inr config)] @
                   [Fetched ''data/late_awakening_cases.encrypted'' (Inl err)])"
      by (simp add: load_late_cases_def fetched_def log_event_def)
    then show ?thesis
      using decrypt_calls_ok_Fetched decrypt_calls_ok_append by blast
  next
    case encrypted: (Inr encrypted)
    have call: "decrypt_calls_ok en (storedPassword s)
        [Fetched ''data/encryption_config.json'' (Inr config),
         Fetched ''data/late_awakening_cases.encrypted'' (Inr encrypted),
         DecryptCall encrypted (storedPassword s) config]"
      using config encrypted by (intro decrypt_calls_ok_call) auto
    show ?thesis
    proof (cases "truthy (decryptData rt encrypted (storedPassword s) config)")
      case True
      with config encrypted have "trace (load_late_cases rt en s) =
          trace s @ ([Fetched ''data/encryption_config.json'' (Inr config),
                      Fetched ''data/late_awakening_cases.encrypted'' (Inr encrypted),
                      DecryptCall encrypted (storedPassword s) config] @
                     [UiCall PopulateLateCaseSelector]) \<or>
        trace (load_late_cases rt en s) =
          trace s @ [Fetched ''data/encryption_config.json'' (Inr config),
                     Fetched ''data/late_awakening_cases.encrypted'' (Inr encrypted),
                     DecryptCall encrypted (storedPassword s) config]"
        by (simp add: load_late_cases_def fetched_def log_event_def Let_def split: option.splits)
      then show ?thesis
        using call decrypt_calls_ok_UiCall decrypt_calls_ok_append by blast
    next
      case False
      with config encrypted have "trace (load_late_cases rt en s) =
          trace s @ [Fetched ''data/encryption_config.json'' (Inr config),
                     Fetched ''data/late_awakening_cases.encrypted'' (Inr encrypted),
                     DecryptCall encrypted (storedPassword s) config]"
        by (simp add: load_late_cases_def fetched_def log_event_def Let_def)
      then show ?thesis
        using call by blast
    qed
  qed
qed

lemma load_late_cases_fields:
  "casesData (load_late_cases rt en s) = casesData s"
  "metadata (load_late_cases rt en s) = metadata s"
  "lateAwakeningData (load_late_cases rt en s) = lateAwakeningData s"
  "storedPassword (load_late_cases rt en s) = storedPassword s"
  "password_error (load_late_cases rt en s) = password_error s"
  "modal_hidden (load_late_cases rt en s) = modal_hidden s"
  "app_hidden (load_late_cases rt en s) = app_hidden s"
  by (simp_all add: load_late_cases_def fetched_def log_event_def Let_def
      split: sum.splits option.splits)

lemma loadLateAwakeningData_trace:
  "\<exists>evs. trace (loadLateAwakeningData rt en s) = trace s @ evs \<and>
         decrypt_calls_ok en (storedPassword s) evs"
proof (cases "fetch_json en ''data/late_awakening_top20.json''")
  case (Inl err)
  then have "trace (loadLateAwakeningData rt en s) =
      trace s @ [Fetched ''data/late_awakening_top20.json'' (Inl err)]"
    by (simp add: loadLateAwakeningData_def fetched_def log_event_def)
  then show ?thesis
    using decrypt_calls_ok_Fetched by blast
next
  case (Inr d)
  define s1 where
    "s1 = (fetched en ''data/late_awakening_top20.json'' s)\<lparr>lateAwakeningData := d\<rparr>"
  have s1: "trace s1 = trace s @ [Fetched ''data/late_awakening_top20.json'' (Inr d)]"
    "storedPassword s1 = storedPassword s"
    using Inr by (simp_all add: s1_def fetched_def log_event_def)
  obtain evs where evs: "trace (load_late_cases rt en s1) = trace s1 @ evs"
    "decrypt_calls_ok en (storedPassword s1) evs"
    using load_late_cases_trace by blast
  have "loadLateAwakeningData rt en s =
      log_event (UiCall RenderLateAwakeningTable) (load_late_cases rt en s1)"
    using Inr by (simp add: loadLateAwakeningData_def s1_def Let_def)
  then have "trace (loadLateAwakeningData rt en s) =
      trace s @ ([Fetched ''data/late_awakening_top20.json'' (Inr d)] @ evs @
                 [UiCall RenderLateAwakeningTable])"
    using evs(1) s1(1) by (simp add: log_event_def)
  moreover have "decrypt_calls_ok en (storedPassword s)
      ([Fetched ''data/late_awakening_top20.json'' (Inr d)] @ evs @
       [UiCall RenderLateAwakeningTable])"
    using evs(2) s1(2)
    by (intro decrypt_calls_ok_append decrypt_calls_ok_Fetched decrypt_calls_ok_UiCall) simp
  ultimately show ?thesis by blast
qed

lemma loadLateAwakeningData_fields:
  "casesData (loadLateAwakeningData rt en s) = casesData s"
  "metadata (loadLateAwakeningData rt en s) = metadata s"
  "storedPassword (loadLateAwakeningData rt en s) = storedPassword s"
  "password_error (loadLateAwakeningData rt en s) = password_error s"
  "modal_hidden (loadLateAwakeningData rt en s) = modal_hidden s"
  "app_hidden (loadLateAwakeningData rt en s) = app_hidden s"
  by (simp_all add: loadLateAwakeningData_def load_late_cases_fields fetched_def log_event_def
      Let_def split: sum.splits)

lemma initializeApp_trace:
  "\<exists>evs. trace (snd (initializeApp rt en s)) = trace s @ evs \<and>
         decrypt_calls_ok en (storedPassword s) evs"
proof -
  define s1 where "s1 = log_event (UiCall InitializeTabs) s"
  define s2 where "s2 = log_event (UiCall RenderOverview) s1"
  define s3 where "s3 = log_event (UiCall PopulateCaseSelector) s2"
  have t1: "trace s1 = trace s @ [UiCall InitializeTabs]"
    by (simp add: s1_def log_event_def)
  have t2: "trace s2 = trace s @ ([UiCall InitializeTabs] @ [UiCall RenderOverview])"
    by (simp add: s2_def s1_def log_event_def)
  have t3: "trace s3 = trace s @ ([UiCall InitializeTabs] @ [UiCall RenderOverview] @
      [UiCall PopulateCaseSelector])"
    by (simp add: s3_def s2_def s1_def log_event_def)
  have p3: "storedPassword s3 = storedPassword s"
    by (simp add: s3_def s2_def s1_def log_event_def)
  have ui2: "decrypt_calls_ok en (storedPassword s)
      ([UiCall InitializeTabs] @ [UiCall RenderOverview])"
    by (intro decrypt_calls_ok_append decrypt_calls_ok_UiCall)
  have ui3: "decrypt_calls_ok en (storedPassword s)
      ([UiCall InitializeTabs] @ [UiCall RenderOverview] @ [UiCall PopulateCaseSelector])"
    by (intro decrypt_calls_ok_append decrypt_calls_ok_UiCall)
  show ?thesis
  proof (cases "ui en InitializeTabs s")
    case (Some e)
    then have "snd (initializeApp rt en s) = s1"
      by (simp add: initializeApp_def s1_def)
    then show ?thesis using t1 decrypt_calls_ok_UiCall by metis
  next
    case n1: None
    show ?thesis
    proof (cases "ui en RenderOverview s1")
      case (Some e)
      with n1 have "snd (initializeApp rt en s) = s2"
        by (simp add: initializeApp_def s1_def s2_def)
      then show ?thesis using t2 ui2 by metis
    next
      case n2: None
      show ?thesis
      proof (cases "ui en PopulateCaseSelector s2")
        case (Some e)
        with n1 n2 have "snd (initializeApp rt en s) = s3"
          by (simp add: initializeApp_def s1_def s2_def s3_def)
        then show ?thesis using t3 ui3 by metis
      next
        case n3: None
        obtain evs where evs: "trace (loadLateAwakeningData rt en s3) = trace s3 @ evs"
          "decrypt_calls_ok en (storedPassword s3) evs"
          using loadLateAwakeningData_trace by blast
        from n1 n2 n3 have "snd (initializeApp rt en s) = loadLateAwakeningData rt en s3"
          by (simp add: initializeApp_def s1_def s2_def s3_def)
        then have "trace (snd (initializeApp rt en s)) =
            trace s @ (([UiCall InitializeTabs] @ [UiCall RenderOverview] @
                        [UiCall PopulateCaseSelector]) @ evs)"
          using evs(1) t3 by simp
        moreover have "decrypt_calls_ok en (storedPassword s)
            (([UiCall InitializeTabs] @ [UiCall RenderOverview] @
              [UiCall PopulateCaseSelector]) @ evs)"
        proof (rule decrypt_calls_ok_append)
          show "decrypt_calls_ok en (storedPassword s)
              ([UiCall InitializeTabs] @ [UiCall RenderOverview] @ [UiCall PopulateCaseSelector])"
            by (rule ui3)
          show "decrypt_calls_ok en (storedPassword s) evs"
            using evs(2) p3 by simp
        qed
        ultimately show ?thesis by blast
      qed
    qed
  qed
qed

lemma initializeApp_fields:
  "casesData (snd (initializeApp rt en s)) = casesData s"
  "metadata (snd (initializeApp rt en s)) = metadata s"
  "storedPassword (snd (initializeApp rt en s)) = storedPassword s"
  "password_error (snd (initializeApp rt en s)) = password_error s"
  "modal_hidden (snd (initializeApp rt en s)) = modal_hidden s"
  "app_hidden (snd (initializeApp rt en s)) = app_hidden s"
  by (simp_all add: initializeApp_def loadLateAwakeningData_fields log_event_def
      Let_def split: option.splits)

section \<open>An accepted password\<close>

lemma submit_accepted:
  assumes "password_input en \<noteq> []"
    and "fetch_json en ''data/encryption_config.json'' = Inr config"
    and "fetch_json en ''data/cases.encrypted'' = Inr encrypted"
    and "truthy (decryptData rt encrypted (JStr (password_input en)) config)"
    and "fetch_json en ''data/metadata.json'' = Inr md"
  shows "casesData (submitPassword rt en s) =
           decryptData rt encrypted (JStr (password_input en)) config"
    and "storedPassword (submitPassword rt en s) = JStr (password_input en)"
    and "metadata (submitPassword rt en s) = md"
    and "modal_hidden (submitPassword rt en s)"
    and "\<not> app_hidden (submitPassword rt en s)"
    and "password_error (submitPassword rt en s) = ''Decrypting...''"
    and "\<exists>evs. trace (submitPassword rt en s) =
           trace s @ [Fetched ''data/encryption_config.json'' (Inr config),
                      Fetched ''data/cases.encrypted'' (Inr encrypted),
                      DecryptCall encrypted (JStr (password_input en)) config,
                      Fetched ''data/metadata.json'' (Inr md)] @ evs \<and>
           decrypt_calls_ok en (JStr (password_input en)) evs"
proof -
  define s5 where "s5 =
    s\<lparr>password_error := ''Decrypting...'',
      casesData := decryptData rt encrypted (JStr (password_input en)) config,
      storedPassword := JStr (password_input en),
      trace := trace s @ [Fetched ''data/encryption_config.json'' (Inr config),
                          Fetched ''data/cases.encrypted'' (Inr encrypted),
                          DecryptCall encrypted (JStr (password_input en)) config,
                          Fetched ''data/metadata.json'' (Inr md)],
      metadata := md,
      modal_hidden := True,
      app_hidden := False\<rparr>"
  define s6 where "s6 = snd (initializeApp rt en s5)"
  have body: "submit_try rt en (password_input en) (s\<lparr>password_error := ''Decrypting...''\<rparr>) =
      (None, s6)"
    using assms
    by (simp add: submit_try_def fetched_def log_event_def Let_def s5_def s6_def)
  have sub: "submitPassword rt en s = s6"
    using assms(1) body by (simp add: submitPassword_def)
  note s6 = s6_def
  have f6: "casesData s6 = decryptData rt encrypted (JStr (password_input en)) config"
    "storedPassword s6 = JStr (password_input en)" "metadata s6 = md"
    "modal_hidden s6" "\<not> app_hidden s6" "password_error s6 = ''Decrypting...''"
    by (simp_all add: s6 initializeApp_fields s5_def)
  obtain evs where evs: "trace s6 = trace s5 @ evs"
    "decrypt_calls_ok en (storedPassword s5) evs"
    using initializeApp_trace [of rt en s5] s6 by auto
  have t6: "trace s6 =
      trace s @ [Fetched ''data/encryption_config.json'' (Inr config),
                 Fetched ''data/cases.encrypted'' (Inr encrypted),
                 DecryptCall encrypted (JStr (password_input en)) config,
                 Fetched ''data/metadata.json'' (Inr md)] @ evs"
    using evs(1) by (simp add: s5_def)
  have ok: "decrypt_calls_ok en (JStr (password_input en)) evs"
    using evs(2) by (simp add: s5_def)
  show "casesData (submitPassword rt en s) =
      decryptData rt encrypted (JStr (password_input en)) config"
    using sub f6 by auto
  show "storedPassword (submitPassword rt en s) = JStr (password_input en)"
    using sub f6 by auto
  show "metadata (submitPassword rt en s) = md"
    using sub f6 by auto
  show "modal_hidden (submitPassword rt en s)"
    using sub f6 by auto
  show "\<not> app_hidden (submitPassword rt en s)"
    using sub f6 by auto
  show "password_error (submitPassword rt en s) = ''Decrypting...''"
    using sub f6 by auto
  have "trace (submitPassword rt en s) = trace s6"
    using sub by auto
  with t6 ok show "\<exists>evs. trace (submitPassword rt en s) =
      trace s @ [Fetched ''data/encryption_config.json'' (Inr config),
                 Fetched ''data/cases.encrypted'' (Inr encrypted),
                 DecryptCall encrypted (JStr (password_input en)) config,
                 Fetched ''data/metadata.json'' (Inr md)] @ evs \<and>
      decrypt_calls_ok en (JStr (password_input en)) evs"
    by auto
qed

text \<open>The five ways a submit attempt with a non-empty password can go.\<close>

lemma submit_cases:
  assumes "password_input en \<noteq> []"
  obtains
    (config_fails) err where "fetch_json en ''data/encryption_config.json'' = Inl err"
  | (envelope_fails) config err where
      "fetch_json en ''data/encryption_config.json'' = Inr config"
      "fetch_json en ''data/cases.encrypted'' = Inl err"
  | (rejected) config encrypted where
      "fetch_json en ''data/encryption_config.json'' = Inr config"
      "fetch_json en ''data/cases.encrypted'' = Inr encrypted"
      "\<not> truthy (decryptData rt encrypted (JStr (password_input en)) config)"
  | (metadata_fails) config encrypted err where
      "fetch_json en ''data/encryption_config.json'' = Inr config"
      "fetch_json en ''data/cases.encrypted'' = Inr encrypted"
      "truthy (decryptData rt encrypted (JStr (password_input en)) config)"
      "fetch_json en ''data/metadata.json'' = Inl err"
  | (accepted) config encrypted md where
      "fetch_json en ''data/encryption_config.json'' = Inr config"
      "fetch_json en ''data/cases.encrypted'' = Inr encrypted"
      "truthy (decryptData rt encrypted (JStr (password_input en)) config)"
      "fetch_json en ''data/metadata.json'' = Inr md"
proof (cases "fetch_json en ''data/encryption_config.json''")
  case (Inl err)
  then show ?thesis by (rule config_fails)
next
  case config: (Inr config)
  show ?thesis
  proof (cases "fetch_json en ''data/cases.encrypted''")
    case (Inl err)
    with config show ?thesis by (rule envelope_fails)
  next
    case encrypted: (Inr encrypted)
    show ?thesis
    proof (cases "truthy (decryptData rt encrypted (JStr (password_input en)) config)")
      case False
      with config encrypted show ?thesis by (rule rejected)
    next
      case True
      show ?thesis
      proof (cases "fetch_json en ''data/metadata.json''")
        case (Inl err)
        with config encrypted True show ?thesis by (rule metadata_fails)
      next
        case (Inr md)
        with config encrypted True show ?thesis by (rule accepted)
      qed
    qed
  qed
qed

text \<open>The events of one submit attempt are in order for the submitted password.\<close>

lemma submit_trace:
  "\<exists>evs. trace (submitPassword rt en s) = trace s @ evs \<and>
         decrypt_calls_ok en (JStr (password_input en)) evs"
proof (cases "password_input en = []")
  case True
  then have "trace (submitPassword rt en s) = trace s @ []"
    by (simp add: submit_empty)
  then show ?thesis using decrypt_calls_ok_Nil by blast
next
  case False
  then show ?thesis
  proof (cases rule: submit_cases [where rt = rt])
    case (config_fails err)
    from submit_config_fails [OF False this]
    have "trace (submitPassword rt en s) =
        trace s @ [Fetched ''data/encryption_config.json'' (Inl err)]"
      by simp
    then show ?thesis using decrypt_calls_ok_Fetched by blast
  next
    case (envelope_fails config err)
    from submit_envelope_fails [OF False this]
    have "trace (submitPassword rt en s) =
        trace s @ ([Fetched ''data/encryption_config.json'' (Inr config)] @
                   [Fetched ''data/cases.encrypted'' (Inl err)])"
      by simp
    then show ?thesis using decrypt_calls_ok_Fetched decrypt_calls_ok_append by blast
  next
    case (rejected config encrypted)
    from submit_rejected [OF False this]
    have "trace (submitPassword rt en s) =
        trace s @ [Fetched ''data/encryption_config.json'' (Inr config),
                   Fetched ''data/cases.encrypted'' (Inr encrypted),
                   DecryptCall encrypted (JStr (password_input en)) config]"
      by simp
    moreover have "decrypt_calls_ok en (JStr (password_input en))
        [Fetched ''data/encryption_config.json'' (Inr config),
         Fetched ''data/cases.encrypted'' (Inr encrypted),
         DecryptCall encrypted (JStr (password_input en)) config]"
      using rejected by (intro decrypt_calls_ok_call) auto
    ultimately show ?thesis by blast
  next
    case (metadata_fails config encrypted err)
    from submit_metadata_fails [OF False this]
    have "trace (submitPassword rt en s) =
        trace s @ ([Fetched ''data/encryption_config.json'' (Inr config),
                    Fetched ''data/cases.encrypted'' (Inr encrypted),
                    DecryptCall encrypted (JStr (password_input en)) config] @
                   [Fetched ''data/metadata.json'' (Inl err)])"
      by simp
    moreover have "decrypt_calls_ok en (JStr (password_input en))
        ([Fetched ''data/encryption_config.json'' (Inr config),
          Fetched ''data/cases.encrypted'' (Inr encrypted),
          DecryptCall encrypted (JStr (password_input en)) config] @
         [Fetched ''data/metadata.json'' (Inl err)])"
      using metadata_fails
      by (intro decrypt_calls_ok_append decrypt_calls_ok_call decrypt_calls_ok_Fetched) auto
    ultimately show ?thesis by blast
  next
    case (accepted config encrypted md)
    from submit_accepted(7) [OF False this, of s]
    obtain evs where evs: "trace (submitPassword rt en s) =
        trace s @ ([Fetched ''data/encryption_config.json'' (Inr config),
                    Fetched ''data/cases.encrypted'' (Inr encrypted),
                    DecryptCall encrypted (JStr (password_input en)) config] @
                   [Fetched ''data/metadata.json'' (Inr md)] @ evs)"
      and ok: "decrypt_calls_ok en (JStr (password_input en)) evs"
      by auto
    have "decrypt_calls_ok en (JStr (password_input en))
        ([Fetched ''data/encryption_config.json'' (Inr config),
          Fetched ''data/cases.encrypted'' (Inr encrypted),
          DecryptCall encrypted (JStr (password_input en)) config] @
         [Fetched ''data/metadata.json'' (Inr md)] @ evs)"
    proof (intro decrypt_calls_ok_append)
      show "decrypt_calls_ok en (JStr (password_input en))
          [Fetched ''data/encryption_config.json'' (Inr config),
           Fetched ''data/cases.encrypted'' (Inr encrypted),
           DecryptCall encrypted (JStr (password_input en)) config]"
        using accepted by (intro decrypt_calls_ok_call) auto
      show "decrypt_calls_ok en (JStr (password_input en)) [Fetched ''data/metadata.json'' (Inr md)]"
        by (rule decrypt_calls_ok_Fetched)
      show "decrypt_calls_ok en (JStr (password_input en)) evs"
        by (rule ok)
    qed
    with evs show ?thesis by blast
  qed
qed

section \<open>Evaluating the sample session\<close>

lemmas session_defs =
  submitPassword_def submit_try_def initializeApp_def loadLateAwakeningData_def
  load_late_cases_def fetched_def log_event_def sample_env_def sample_server_def
  full_server_def offline_server_def sample_initial_def Let_def

lemma sample_envelope_decrypts:
  "decryptData sample_platform sample_envelope (JStr ''ab'') (config_file scenario_config) =
     JArr [JNum (Num 1)]"
  by (simp add: sample_envelope_def sample_defs decrypt_defs)

section \<open>The tasks and the functions agree\<close>

lemma run_load_late_cases:
  "run rt en (load_late_cases_task rest) s = run rt en rest (load_late_cases rt en s)"
  by (simp add: load_late_cases_task_def load_late_cases_def fetched_def Let_def
      split: sum.splits option.splits)

lemma run_loadLateAwakeningData:
  "run rt en (loadLateAwakeningData_task rest) s = run rt en rest (loadLateAwakeningData rt en s)"
  by (simp add: loadLateAwakeningData_task_def loadLateAwakeningData_def run_load_late_cases
      fetched_def Let_def split: sum.splits)

lemma run_initializeApp:
  "run rt en initializeApp_task s = snd (initializeApp rt en s)"
  by (simp add: initializeApp_task_def initializeApp_def run_loadLateAwakeningData Let_def
      split: option.splits)

lemma run_submitPassword:
  "run rt en (submitPassword_task (password_input en)) s = submitPassword rt en s"
  by (simp add: submitPassword_task_def submit_catch_def submitPassword_def submit_try_def
      run_initializeApp fetched_def Let_def split: sum.splits)

section \<open>C8: both fetches complete before the key is derived\<close>

text \<open>
  C8. A submit attempt with a non-empty password is suspended twice before
  \<^verbatim>\<open>decryptData\<close> is called. While it waits for the configuration, and while it waits for
  the envelope after the configuration has arrived, the state is the initial one with the
  message \<^verbatim>\<open>Decrypting...\<close> and the completed fetch in the trace: no call of \<^verbatim>\<open>decryptData\<close>
  has been made and nothing depends on the libraries. If either fetch fails, the attempt
  ends with the message \<^verbatim>\<open>Error loading data. Please check the console.\<close> and without any
  call of \<^verbatim>\<open>decryptData\<close>. When the envelope has arrived too,
  \<^verbatim>\<open>decryptData\<close> is called once, on exactly the envelope and the configuration that the
  two fetches delivered, and its result decides between storing the data and the message
  \<^verbatim>\<open>Incorrect password. Please try again.\<close> Run to its end, the task reaches the state of
  \<^verbatim>\<open>submitPassword\<close>, in whose trace every call of \<^verbatim>\<open>decryptData\<close>, the one for the second
  dataset included, comes directly after the completed fetch of its configuration and of
  its envelope.
\<close>

theorem decrypt_after_both_fetches:
  "run rt en (submitPassword_task (password_input en)) s = submitPassword rt en s \<and>
   (password_input en \<noteq> [] \<longrightarrow>
      advance rt en (submitPassword_task (password_input en)) 0 s =
        (s\<lparr>password_error := ''Decrypting...''\<rparr>, Some ''data/encryption_config.json'')) \<and>
   (password_input en \<noteq> [] \<and>
    fetch_json en ''data/encryption_config.json'' = Inl err \<longrightarrow>
      run rt en (submitPassword_task (password_input en)) s =
        s\<lparr>password_error := ''Error loading data. Please check the console.'',
          trace := trace s @ [Fetched ''data/encryption_config.json'' (Inl err)]\<rparr>) \<and>
   (password_input en \<noteq> [] \<and>
    fetch_json en ''data/encryption_config.json'' = Inr config \<and>
    fetch_json en ''data/cases.encrypted'' = Inl err \<longrightarrow>
      run rt en (submitPassword_task (password_input en)) s =
        s\<lparr>password_error := ''Error loading data. Please check the console.'',
          trace := trace s @ [Fetched ''data/encryption_config.json'' (Inr config),
                              Fetched ''data/cases.encrypted'' (Inl err)]\<rparr>) \<and>
   (password_input en \<noteq> [] \<and>
    fetch_json en ''data/encryption_config.json'' = Inr config \<longrightarrow>
      advance rt en (submitPassword_task (password_input en)) 1 s =
        (s\<lparr>password_error := ''Decrypting...'',
           trace := trace s @ [Fetched ''data/encryption_config.json'' (Inr config)]\<rparr>,
         Some ''data/cases.encrypted'')) \<and>
   (password_input en \<noteq> [] \<and>
    fetch_json en ''data/encryption_config.json'' = Inr config \<and>
    fetch_json en ''data/cases.encrypted'' = Inr encrypted \<longrightarrow>
      advance rt en (submitPassword_task (password_input en)) 2 s =
        (if truthy (decryptData rt encrypted (JStr (password_input en)) config)
         then
           (s\<lparr>password_error := ''Decrypting...'',
              trace := trace s @
                [Fetched ''data/encryption_config.json'' (Inr config),
                 Fetched ''data/cases.encrypted'' (Inr encrypted),
                 DecryptCall encrypted (JStr (password_input en)) config],
              casesData := decryptData rt encrypted (JStr (password_input en)) config,
              storedPassword := JStr (password_input en)\<rparr>,
            Some ''data/metadata.json'')
         else
           (s\<lparr>password_error := ''Incorrect password. Please try again.'',
              trace := trace s @
                [Fetched ''data/encryption_config.json'' (Inr config),
                 Fetched ''data/cases.encrypted'' (Inr encrypted),
                 DecryptCall encrypted (JStr (password_input en)) config]\<rparr>,
            None))) \<and>
   (\<forall>pre e p c post.
      trace (submitPassword rt en s) = trace s @ pre @ DecryptCall e p c # post \<longrightarrow>
        (\<exists>pre' url.
           pre = pre' @ [Fetched ''data/encryption_config.json'' (Inr c), Fetched url (Inr e)] \<and>
           fetch_json en ''data/encryption_config.json'' = Inr c \<and>
           fetch_json en url = Inr e \<and>
           (url = ''data/cases.encrypted'' \<or> url = ''data/late_awakening_cases.encrypted'')))"
proof (intro conjI impI allI)
  show "run rt en (submitPassword_task (password_input en)) s = submitPassword rt en s"
    by (rule run_submitPassword)
next
  assume "password_input en \<noteq> []"
  then show "advance rt en (submitPassword_task (password_input en)) 0 s =
      (s\<lparr>password_error := ''Decrypting...''\<rparr>, Some ''data/encryption_config.json'')"
    by (simp add: submitPassword_task_def)
next
  assume "password_input en \<noteq> [] \<and>
    fetch_json en ''data/encryption_config.json'' = Inl err"
  then show "run rt en (submitPassword_task (password_input en)) s =
      s\<lparr>password_error := ''Error loading data. Please check the console.'',
        trace := trace s @ [Fetched ''data/encryption_config.json'' (Inl err)]\<rparr>"
    using submit_config_fails by (simp add: run_submitPassword)
next
  assume "password_input en \<noteq> [] \<and>
    fetch_json en ''data/encryption_config.json'' = Inr config \<and>
    fetch_json en ''data/cases.encrypted'' = Inl err"
  then show "run rt en (submitPassword_task (password_input en)) s =
      s\<lparr>password_error := ''Error loading data. Please check the console.'',
        trace := trace s @ [Fetched ''data/encryption_config.json'' (Inr config),
                            Fetched ''data/cases.encrypted'' (Inl err)]\<rparr>"
    using submit_envelope_fails by (simp add: run_submitPassword)
next
  assume "password_input en \<noteq> [] \<and>
    fetch_json en ''data/encryption_config.json'' = Inr config"
  then show "advance rt en (submitPassword_task (password_input en)) 1 s =
      (s\<lparr>password_error := ''Decrypting...'',
         trace := trace s @ [Fetched ''data/encryption_config.json'' (Inr config)]\<rparr>,
       Some ''data/cases.encrypted'')"
    by (simp add: submitPassword_task_def log_event_def)
next
  assume "password_input en \<noteq> [] \<and>
    fetch_json en ''data/encryption_config.json'' = Inr config \<and>
    fetch_json en ''data/cases.encrypted'' = Inr encrypted"
  then show "advance rt en (submitPassword_task (password_input en)) 2 s =
      (if truthy (decryptData rt encrypted (JStr (password_input en)) config)
       then
         (s\<lparr>password_error := ''Decrypting...'',
            trace := trace s @
              [Fetched ''data/encryption_config.json'' (Inr config),
               Fetched ''data/cases.encrypted'' (Inr encrypted),
               DecryptCall encrypted (JStr (password_input en)) config],
            casesData := decryptData rt encrypted (JStr (password_input en)) config,
            storedPassword := JStr (password_input en)\<rparr>,
          Some ''data/metadata.json'')
       else
         (s\<lparr>password_error := ''Incorrect password. Please try again.'',
            trace := trace s @
              [Fetched ''data/encryption_config.json'' (Inr config),
               Fetched ''data/cases.encrypted'' (Inr encrypted),
               DecryptCall encrypted (JStr (password_input en)) config]\<rparr>,
          None))"
    by (simp add: submitPassword_task_def log_event_def numeral_2_eq_2)
next
  fix pre e p c post
  assume split: "trace (submitPassword rt en s) = trace s @ pre @ DecryptCall e p c # post"
  obtain evs where evs: "trace (submitPassword rt en s) = trace s @ evs"
    and ok: "decrypt_calls_ok en (JStr (password_input en)) evs"
    using submit_trace by blast
  from evs split have "evs = pre @ DecryptCall e p c # post"
    by simp
  with ok show "\<exists>pre' url.
      pre = pre' @ [Fetched ''data/encryption_config.json'' (Inr c), Fetched url (Inr e)] \<and>
      fetch_json en ''data/encryption_config.json'' = Inr c \<and>
      fetch_json en url = Inr e \<and>
      (url = ''data/cases.encrypted'' \<or> url = ''data/late_awakening_cases.encrypted'')"
    unfolding decrypt_calls_ok_def by blast
qed

text \<open>
  The sample session at its three stops: nothing fetched, the configuration fetched, both
  fetched.
\<close>

theorem decrypt_after_both_fetches_witness:
  "advance sample_platform
     (sample_env ''ab'' (sample_server (config_file scenario_config) sample_envelope))
     (submitPassword_task ''ab'') 0 sample_initial =
     (sample_initial\<lparr>password_error := ''Decrypting...''\<rparr>,
      Some ''data/encryption_config.json'') \<and>
   advance sample_platform
     (sample_env ''ab'' (sample_server (config_file scenario_config) sample_envelope))
     (submitPassword_task ''ab'') 1 sample_initial =
     (sample_initial\<lparr>password_error := ''Decrypting...'',
        trace := [Fetched ''data/encryption_config.json'' (Inr (config_file scenario_config))]\<rparr>,
      Some ''data/cases.encrypted'') \<and>
   advance sample_platform
     (sample_env ''ab'' (sample_server (config_file scenario_config) sample_envelope))
     (submitPassword_task ''ab'') 2 sample_initial =
     (sample_initial\<lparr>password_error := ''Decrypting...'',
        trace := [Fetched ''data/encryption_config.json'' (Inr (config_file scenario_config)),
                  Fetched ''data/cases.encrypted'' (Inr sample_envelope),
                  DecryptCall sample_envelope (JStr ''ab'') (config_file scenario_config)],
        casesData := JArr [JNum (Num 1)],
        storedPassword := JStr ''ab''\<rparr>,
      Some ''data/metadata.json'') \<and>
   advance sample_platform
     (sample_env ''zz'' (sample_server (config_file scenario_config) sample_envelope))
     (submitPassword_task ''zz'') 2 sample_initial =
     (sample_initial\<lparr>password_error := ''Incorrect password. Please try again.'',
        trace := [Fetched ''data/encryption_config.json'' (Inr (config_file scenario_config)),
                  Fetched ''data/cases.encrypted'' (Inr sample_envelope),
                  DecryptCall sample_envelope (JStr ''zz'') (config_file scenario_config)]\<rparr>,
      None)"
proof -
  let ?right = "sample_env ''ab'' (sample_server (config_file scenario_config) sample_envelope)"
  let ?wrong = "sample_env ''zz'' (sample_server (config_file scenario_config) sample_envelope)"
  have right: "password_input ?right = ''ab''"
    "fetch_json ?right ''data/encryption_config.json'' = Inr (config_file scenario_config)"
    "fetch_json ?right ''data/cases.encrypted'' = Inr sample_envelope"
    by (simp_all add: sample_env_def sample_server_def)
  have wrong: "password_input ?wrong = ''zz''"
    "fetch_json ?wrong ''data/encryption_config.json'' = Inr (config_file scenario_config)"
    "fetch_json ?wrong ''data/cases.encrypted'' = Inr sample_envelope"
    by (simp_all add: sample_env_def sample_server_def)
  have fails: "decryptData sample_platform sample_envelope (JStr ''zz'')
      (config_file scenario_config) = JNull"
    by (simp add: sample_envelope_def sample_defs decrypt_defs)
  have empty: "trace sample_initial = []"
    by (simp add: sample_initial_def)
  from decrypt_after_both_fetches [where rt = sample_platform and en = ?right
      and s = sample_initial and config = "config_file scenario_config"
      and encrypted = sample_envelope] right
  have r: "advance sample_platform ?right (submitPassword_task ''ab'') 0 sample_initial =
      (sample_initial\<lparr>password_error := ''Decrypting...''\<rparr>,
       Some ''data/encryption_config.json'')"
    "advance sample_platform ?right (submitPassword_task ''ab'') 1 sample_initial =
      (sample_initial\<lparr>password_error := ''Decrypting...'',
         trace := trace sample_initial @
           [Fetched ''data/encryption_config.json'' (Inr (config_file scenario_config))]\<rparr>,
       Some ''data/cases.encrypted'')"
    "advance sample_platform ?right (submitPassword_task ''ab'') 2 sample_initial =
      (sample_initial\<lparr>password_error := ''Decrypting...'',
         trace := trace sample_initial @
           [Fetched ''data/encryption_config.json'' (Inr (config_file scenario_config)),
            Fetched ''data/cases.encrypted'' (Inr sample_envelope),
            DecryptCall sample_envelope (JStr ''ab'') (config_file scenario_config)],
         casesData := JArr [JNum (Num 1)],
         storedPassword := JStr ''ab''\<rparr>,
       Some ''data/metadata.json'')"
    by (simp_all add: sample_envelope_decrypts)
  from decrypt_after_both_fetches [where rt = sample_platform and en = ?wrong
      and s = sample_initial and config = "config_file scenario_config"
      and encrypted = sample_envelope] wrong
  have w: "advance sample_platform ?wrong (submitPassword_task ''zz'') 2 sample_initial =
      (sample_initial\<lparr>password_error := ''Incorrect password. Please try again.'',
         trace := trace sample_initial @
           [Fetched ''data/encryption_config.json'' (Inr (config_file scenario_config)),
            Fetched ''data/cases.encrypted'' (Inr sample_envelope),
            DecryptCall sample_envelope (JStr ''zz'') (config_file scenario_config)]\<rparr>,
       None)"
    by (simp add: fails)
  from r w show ?thesis
    by (simp add: empty)
qed

section \<open>C7: the stored password\<close>

lemma verified_submit:
  assumes "verified rt s"
  shows "verified rt (submitPassword rt en s)"
proof (cases "password_input en = []")
  case True
  with assms show ?thesis
    by (simp add: submit_empty verified_def)
next
  case False
  then show ?thesis
  proof (cases rule: submit_cases [where rt = rt])
    case (config_fails err)
    from submit_config_fails [OF False this] assms show ?thesis
      by (auto simp add: verified_def)
  next
    case (envelope_fails config err)
    from submit_envelope_fails [OF False this] assms show ?thesis
      by (auto simp add: verified_def)
  next
    case (rejected config encrypted)
    from submit_rejected [OF False this] assms show ?thesis
      by (auto simp add: verified_def)
  next
    case (metadata_fails config encrypted err)
    from submit_metadata_fails [OF False this] metadata_fails(3) show ?thesis
      by (auto simp add: verified_def)
  next
    case (accepted config encrypted md)
    from submit_accepted(1,2) [OF False this, of s]
    have stored: "casesData (submitPassword rt en s) =
        decryptData rt encrypted (JStr (password_input en)) config"
      "storedPassword (submitPassword rt en s) = JStr (password_input en)"
      by simp_all
    from submit_accepted(7) [OF False accepted, of s]
    have "DecryptCall encrypted (JStr (password_input en)) config
        \<in> set (trace (submitPassword rt en s))"
      by auto
    with stored accepted(3) show ?thesis
      unfolding verified_def by auto
  qed
qed

lemma reachable_verified: "reachable rt s \<Longrightarrow> verified rt s"
proof (induction rule: reachable.induct)
  case (reachable_initial s)
  then show ?case by (simp add: verified_def initial_def)
next
  case (reachable_submit s en)
  then show ?case by (simp add: verified_submit)
qed

lemma loadLateAwakeningData_password:
  assumes "trace (loadLateAwakeningData rt en s) = trace s @ pre @ DecryptCall e p c # post"
  shows "p = storedPassword s"
proof -
  obtain evs where evs: "trace (loadLateAwakeningData rt en s) = trace s @ evs"
    and ok: "decrypt_calls_ok en (storedPassword s) evs"
    using loadLateAwakeningData_trace by blast
  from evs assms have "evs = pre @ DecryptCall e p c # post"
    by simp
  with ok show ?thesis
    unfolding decrypt_calls_ok_def by blast
qed

lemma submit_password_passed:
  assumes "trace (submitPassword rt en s) = trace s @ pre @ DecryptCall e p c # post"
  shows "p = JStr (password_input en)"
proof -
  obtain evs where evs: "trace (submitPassword rt en s) = trace s @ evs"
    and ok: "decrypt_calls_ok en (JStr (password_input en)) evs"
    using submit_trace by blast
  from evs assms have "evs = pre @ DecryptCall e p c # post"
    by simp
  with ok show ?thesis
    unfolding decrypt_calls_ok_def by blast
qed

text \<open>
  What \<^verbatim>\<open>loadLateAwakeningData\<close> does when its three fetches succeed: it calls
  \<^verbatim>\<open>decryptData\<close> on the second envelope with \<^verbatim>\<open>storedPassword\<close>, and stores the result if
  it is truthy.
\<close>

lemma loadLateAwakeningData_decrypts:
  assumes "fetch_json en ''data/late_awakening_top20.json'' = Inr d"
    and "fetch_json en ''data/encryption_config.json'' = Inr config"
    and "fetch_json en ''data/late_awakening_cases.encrypted'' = Inr late"
  shows "lateAwakeningCases (loadLateAwakeningData rt en s) =
      (if truthy (decryptData rt late (storedPassword s) config)
       then decryptData rt late (storedPassword s) config
       else lateAwakeningCases s)"
    and "\<exists>post. trace (loadLateAwakeningData rt en s) =
      trace s @
      [Fetched ''data/late_awakening_top20.json'' (Inr d),
       Fetched ''data/encryption_config.json'' (Inr config),
       Fetched ''data/late_awakening_cases.encrypted'' (Inr late)] @
      DecryptCall late (storedPassword s) config # post"
  using assms
  by (simp_all add: loadLateAwakeningData_def load_late_cases_def fetched_def log_event_def
      Let_def split: option.splits)

text \<open>The same inside a submit attempt whose rendering calls do not throw.\<close>

lemma submit_decrypts_second_dataset:
  assumes "password_input en \<noteq> []"
    and "fetch_json en ''data/encryption_config.json'' = Inr config"
    and "fetch_json en ''data/cases.encrypted'' = Inr encrypted"
    and "truthy (decryptData rt encrypted (JStr (password_input en)) config)"
    and "fetch_json en ''data/metadata.json'' = Inr md"
    and "\<forall>st. ui en InitializeTabs st = None \<and> ui en RenderOverview st = None \<and>
              ui en PopulateCaseSelector st = None"
    and "fetch_json en ''data/late_awakening_top20.json'' = Inr d"
    and "fetch_json en ''data/late_awakening_cases.encrypted'' = Inr late"
  shows "lateAwakeningCases (submitPassword rt en s) =
      (if truthy (decryptData rt late (JStr (password_input en)) config)
       then decryptData rt late (JStr (password_input en)) config
       else lateAwakeningCases s)"
proof -
  define s5 where "s5 =
    s\<lparr>password_error := ''Decrypting...'',
      casesData := decryptData rt encrypted (JStr (password_input en)) config,
      storedPassword := JStr (password_input en),
      trace := trace s @ [Fetched ''data/encryption_config.json'' (Inr config),
                          Fetched ''data/cases.encrypted'' (Inr encrypted),
                          DecryptCall encrypted (JStr (password_input en)) config,
                          Fetched ''data/metadata.json'' (Inr md)],
      metadata := md,
      modal_hidden := True,
      app_hidden := False\<rparr>"
  define s8 where "s8 = log_event (UiCall PopulateCaseSelector)
    (log_event (UiCall RenderOverview) (log_event (UiCall InitializeTabs) s5))"
  have "submit_try rt en (password_input en) (s\<lparr>password_error := ''Decrypting...''\<rparr>) =
      (None, snd (initializeApp rt en s5))"
    using assms(1-5)
    by (simp add: submit_try_def fetched_def log_event_def Let_def s5_def)
  then have sub: "submitPassword rt en s = snd (initializeApp rt en s5)"
    using assms(1) by (simp add: submitPassword_def)
  have "snd (initializeApp rt en s5) = loadLateAwakeningData rt en s8"
    using assms(6) by (simp add: initializeApp_def s8_def Let_def)
  with sub have "submitPassword rt en s = loadLateAwakeningData rt en s8"
    by simp
  moreover have "storedPassword s8 = JStr (password_input en)"
    "lateAwakeningCases s8 = lateAwakeningCases s"
    by (simp_all add: s8_def s5_def log_event_def)
  ultimately show ?thesis
    using loadLateAwakeningData_decrypts(1) [OF assms(7) assms(2) assms(8), of rt s8]
    by simp
qed

text \<open>
  C7. In every state of a session, either \<^verbatim>\<open>storedPassword\<close> is \<^verbatim>\<open>null\<close> and nothing has been
  stored, or a call of \<^verbatim>\<open>decryptData\<close> made with exactly the stored password has returned
  the truthy (hence non-null) value that \<^verbatim>\<open>casesData\<close> holds. A submit attempt whose call
  of \<^verbatim>\<open>decryptData\<close> returns a truthy value stores exactly the submitted password. When its
  three fetches succeed, \<^verbatim>\<open>loadLateAwakeningData\<close> calls \<^verbatim>\<open>decryptData\<close> on the second
  envelope with \<^verbatim>\<open>storedPassword\<close> and stores the result if it is truthy, and it makes no
  call with another password; inside a successful submit attempt whose rendering calls
  return, the second dataset is therefore decrypted with the password just verified, and
  every call of the attempt is made with the submitted password.
\<close>

theorem storedPassword_only_after_verification:
  assumes "reachable rt s"
  shows "((storedPassword s = JNull \<and> casesData s = JArr []) \<or>
          (\<exists>e c. DecryptCall e (storedPassword s) c \<in> set (trace s) \<and>
                 casesData s = decryptData rt e (storedPassword s) c \<and>
                 truthy (decryptData rt e (storedPassword s) c) \<and>
                 decryptData rt e (storedPassword s) c \<noteq> JNull)) \<and>
         (password_input en \<noteq> [] \<and>
          fetch_json en ''data/encryption_config.json'' = Inr config \<and>
          fetch_json en ''data/cases.encrypted'' = Inr encrypted \<and>
          truthy (decryptData rt encrypted (JStr (password_input en)) config) \<longrightarrow>
            storedPassword (submitPassword rt en s) = JStr (password_input en)) \<and>
         (fetch_json en ''data/late_awakening_top20.json'' = Inr d \<and>
          fetch_json en ''data/encryption_config.json'' = Inr config \<and>
          fetch_json en ''data/late_awakening_cases.encrypted'' = Inr late \<longrightarrow>
            lateAwakeningCases (loadLateAwakeningData rt en s) =
              (if truthy (decryptData rt late (storedPassword s) config)
               then decryptData rt late (storedPassword s) config
               else lateAwakeningCases s) \<and>
            (\<exists>post. trace (loadLateAwakeningData rt en s) =
               trace s @
               [Fetched ''data/late_awakening_top20.json'' (Inr d),
                Fetched ''data/encryption_config.json'' (Inr config),
                Fetched ''data/late_awakening_cases.encrypted'' (Inr late)] @
               DecryptCall late (storedPassword s) config # post)) \<and>
         (password_input en \<noteq> [] \<and>
          fetch_json en ''data/encryption_config.json'' = Inr config \<and>
          fetch_json en ''data/cases.encrypted'' = Inr encrypted \<and>
          truthy (decryptData rt encrypted (JStr (password_input en)) config) \<and>
          fetch_json en ''data/metadata.json'' = Inr md \<and>
          (\<forall>st. ui en InitializeTabs st = None \<and> ui en RenderOverview st = None \<and>
                ui en PopulateCaseSelector st = None) \<and>
          fetch_json en ''data/late_awakening_top20.json'' = Inr d \<and>
          fetch_json en ''data/late_awakening_cases.encrypted'' = Inr late \<longrightarrow>
            lateAwakeningCases (submitPassword rt en s) =
              (if truthy (decryptData rt late (JStr (password_input en)) config)
               then decryptData rt late (JStr (password_input en)) config
               else lateAwakeningCases s)) \<and>
         (\<forall>pre e p c post.
            trace (loadLateAwakeningData rt en s) = trace s @ pre @ DecryptCall e p c # post \<longrightarrow>
              p = storedPassword s) \<and>
         (\<forall>pre e p c post.
            trace (submitPassword rt en s) = trace s @ pre @ DecryptCall e p c # post \<longrightarrow>
              p = JStr (password_input en))"
proof (intro conjI)
  from reachable_verified [OF assms]
  show "(storedPassword s = JNull \<and> casesData s = JArr []) \<or>
      (\<exists>e c. DecryptCall e (storedPassword s) c \<in> set (trace s) \<and>
             casesData s = decryptData rt e (storedPassword s) c \<and>
             truthy (decryptData rt e (storedPassword s) c) \<and>
             decryptData rt e (storedPassword s) c \<noteq> JNull)"
    unfolding verified_def using truthy_not_null by metis
next
  show "password_input en \<noteq> [] \<and>
      fetch_json en ''data/encryption_config.json'' = Inr config \<and>
      fetch_json en ''data/cases.encrypted'' = Inr encrypted \<and>
      truthy (decryptData rt encrypted (JStr (password_input en)) config) \<longrightarrow>
        storedPassword (submitPassword rt en s) = JStr (password_input en)"
  proof (intro impI, elim conjE)
    assume pw: "password_input en \<noteq> []"
      and config: "fetch_json en ''data/encryption_config.json'' = Inr config"
      and encrypted: "fetch_json en ''data/cases.encrypted'' = Inr encrypted"
      and ok: "truthy (decryptData rt encrypted (JStr (password_input en)) config)"
    show "storedPassword (submitPassword rt en s) = JStr (password_input en)"
    proof (cases "fetch_json en ''data/metadata.json''")
      case (Inl err)
      from submit_metadata_fails [OF pw config encrypted ok this] show ?thesis
        by simp
    next
      case (Inr md)
      from submit_accepted(2) [OF pw config encrypted ok this] show ?thesis .
    qed
  qed
next
  show "fetch_json en ''data/late_awakening_top20.json'' = Inr d \<and>
      fetch_json en ''data/encryption_config.json'' = Inr config \<and>
      fetch_json en ''data/late_awakening_cases.encrypted'' = Inr late \<longrightarrow>
        lateAwakeningCases (loadLateAwakeningData rt en s) =
          (if truthy (decryptData rt late (storedPassword s) config)
           then decryptData rt late (storedPassword s) config
           else lateAwakeningCases s) \<and>
        (\<exists>post. trace (loadLateAwakeningData rt en s) =
           trace s @
           [Fetched ''data/late_awakening_top20.json'' (Inr d),
            Fetched ''data/encryption_config.json'' (Inr config),
            Fetched ''data/late_awakening_cases.encrypted'' (Inr late)] @
           DecryptCall late (storedPassword s) config # post)"
    using loadLateAwakeningData_decrypts by blast
next
  show "password_input en \<noteq> [] \<and>
      fetch_json en ''data/encryption_config.json'' = Inr config \<and>
      fetch_json en ''data/cases.encrypted'' = Inr encrypted \<and>
      truthy (decryptData rt encrypted (JStr (password_input en)) config) \<and>
      fetch_json en ''data/metadata.json'' = Inr md \<and>
      (\<forall>st. ui en InitializeTabs st = None \<and> ui en RenderOverview st = None \<and>
            ui en PopulateCaseSelector st = None) \<and>
      fetch_json en ''data/late_awakening_top20.json'' = Inr d \<and>
      fetch_json en ''data/late_awakening_cases.encrypted'' = Inr late \<longrightarrow>
        lateAwakeningCases (submitPassword rt en s) =
          (if truthy (decryptData rt late (JStr (password_input en)) config)
           then decryptData rt late (JStr (password_input en)) config
           else lateAwakeningCases s)"
    using submit_decrypts_second_dataset by blast
next
  show "\<forall>pre e p c post.
      trace (loadLateAwakeningData rt en s) = trace s @ pre @ DecryptCall e p c # post \<longrightarrow>
        p = storedPassword s"
    using loadLateAwakeningData_password by blast
next
  show "\<forall>pre e p c post.
      trace (submitPassword rt en s) = trace s @ pre @ DecryptCall e p c # post \<longrightarrow>
        p = JStr (password_input en)"
    using submit_password_passed by blast
qed

text \<open>
  The sample session on a server that has the second dataset, encrypted under the same
  password: both datasets are decrypted with the password \<^verbatim>\<open>ab\<close>. Without a server,
  nothing is stored.
\<close>

theorem storedPassword_only_after_verification_witness:
  "reachable sample_platform
     (submitPassword sample_platform
        (sample_env ''ab''
           (full_server (config_file scenario_config) sample_envelope sample_envelope))
        sample_initial) \<and>
   storedPassword
     (submitPassword sample_platform
        (sample_env ''ab''
           (full_server (config_file scenario_config) sample_envelope sample_envelope))
        sample_initial) = JStr ''ab'' \<and>
   casesData
     (submitPassword sample_platform
        (sample_env ''ab''
           (full_server (config_file scenario_config) sample_envelope sample_envelope))
        sample_initial) = JArr [JNum (Num 1)] \<and>
   lateAwakeningCases
     (submitPassword sample_platform
        (sample_env ''ab''
           (full_server (config_file scenario_config) sample_envelope sample_envelope))
        sample_initial) = JArr [JNum (Num 1)] \<and>
   trace
     (submitPassword sample_platform
        (sample_env ''ab''
           (full_server (config_file scenario_config) sample_envelope sample_envelope))
        sample_initial) =
     [Fetched ''data/encryption_config.json'' (Inr (config_file scenario_config)),
      Fetched ''data/cases.encrypted'' (Inr sample_envelope),
      DecryptCall sample_envelope (JStr ''ab'') (config_file scenario_config),
      Fetched ''data/metadata.json'' (Inr (JArr [])),
      UiCall InitializeTabs, UiCall RenderOverview, UiCall PopulateCaseSelector,
      Fetched ''data/late_awakening_top20.json'' (Inr (JArr [])),
      Fetched ''data/encryption_config.json'' (Inr (config_file scenario_config)),
      Fetched ''data/late_awakening_cases.encrypted'' (Inr sample_envelope),
      DecryptCall sample_envelope (JStr ''ab'') (config_file scenario_config),
      UiCall PopulateLateCaseSelector, UiCall RenderLateAwakeningTable] \<and>
   reachable sample_platform
     (submitPassword sample_platform (sample_env ''ab'' offline_server) sample_initial) \<and>
   storedPassword
     (submitPassword sample_platform (sample_env ''ab'' offline_server) sample_initial) = JNull"
proof -
  let ?en = "sample_env ''ab''
    (full_server (config_file scenario_config) sample_envelope sample_envelope)"
  let ?s1 = "submitPassword sample_platform ?en sample_initial"
  let ?s2 = "submitPassword sample_platform (sample_env ''ab'' offline_server) sample_initial"
  have init: "reachable sample_platform sample_initial"
    by (rule reachable_initial) (simp add: initial_def sample_initial_def)
  have r1: "reachable sample_platform ?s1"
    using init by (rule reachable_submit)
  have r2: "reachable sample_platform ?s2"
    using init by (rule reachable_submit)
  have en: "password_input ?en \<noteq> []"
    "password_input ?en = ''ab''"
    "fetch_json ?en ''data/encryption_config.json'' = Inr (config_file scenario_config)"
    "fetch_json ?en ''data/cases.encrypted'' = Inr sample_envelope"
    "fetch_json ?en ''data/metadata.json'' = Inr (JArr [])"
    "\<forall>st. ui ?en InitializeTabs st = None \<and> ui ?en RenderOverview st = None \<and>
          ui ?en PopulateCaseSelector st = None"
    "fetch_json ?en ''data/late_awakening_top20.json'' = Inr (JArr [])"
    "fetch_json ?en ''data/late_awakening_cases.encrypted'' = Inr sample_envelope"
    by (simp_all add: sample_env_def full_server_def sample_server_def)
  have ok: "truthy (decryptData sample_platform sample_envelope (JStr (password_input ?en))
      (config_file scenario_config))"
    by (simp add: en(2) sample_envelope_decrypts)
  note c7 = storedPassword_only_after_verification [OF init, of ?en "config_file scenario_config"
      sample_envelope "JArr []" sample_envelope "JArr []"]
  from c7 en ok have p1: "storedPassword ?s1 = JStr (password_input ?en)"
    by blast
  from c7 en ok have "lateAwakeningCases ?s1 =
      (if truthy (decryptData sample_platform sample_envelope (JStr (password_input ?en))
           (config_file scenario_config))
       then decryptData sample_platform sample_envelope (JStr (password_input ?en))
           (config_file scenario_config)
       else lateAwakeningCases sample_initial)"
    by blast
  then have l1: "lateAwakeningCases ?s1 = JArr [JNum (Num 1)]"
    by (simp add: en(2) sample_envelope_decrypts)
  have c1: "casesData ?s1 = JArr [JNum (Num 1)]"
    by (simp add: session_defs sample_envelope_decrypts)
  have t1: "trace ?s1 =
     [Fetched ''data/encryption_config.json'' (Inr (config_file scenario_config)),
      Fetched ''data/cases.encrypted'' (Inr sample_envelope),
      DecryptCall sample_envelope (JStr ''ab'') (config_file scenario_config),
      Fetched ''data/metadata.json'' (Inr (JArr [])),
      UiCall InitializeTabs, UiCall RenderOverview, UiCall PopulateCaseSelector,
      Fetched ''data/late_awakening_top20.json'' (Inr (JArr [])),
      Fetched ''data/encryption_config.json'' (Inr (config_file scenario_config)),
      Fetched ''data/late_awakening_cases.encrypted'' (Inr sample_envelope),
      DecryptCall sample_envelope (JStr ''ab'') (config_file scenario_config),
      UiCall PopulateLateCaseSelector, UiCall RenderLateAwakeningTable]"
    by (simp add: session_defs sample_envelope_decrypts)
  have p2: "storedPassword ?s2 = JNull"
    by (simp add: session_defs)
  from r1 r2 p1 c1 l1 t1 p2 show ?thesis
    by (simp add: en(2))
qed

section \<open>C3: the two error messages\<close>

text \<open>
  C3. In a submit attempt with a non-empty password, a failure of the fetch of the
  configuration, of the envelope or (after a successful decryption) of the metadata
  leaves the message \<^verbatim>\<open>Error loading data. Please check the console.\<close>; a failure inside
  \<^verbatim>\<open>decryptData\<close>, whichever step throws and whatever it throws (decoding a field, deriving
  the key, decrypting, reading the bytes as UTF-8, parsing the text), leaves the message
  \<^verbatim>\<open>Incorrect password. Please try again.\<close> and, apart from the trace, the same state.
\<close>

theorem submit_error_messages:
  assumes "password_input en \<noteq> []"
  shows "(fetch_json en ''data/encryption_config.json'' = Inl err \<longrightarrow>
            password_error (submitPassword rt en s) =
              ''Error loading data. Please check the console.'') \<and>
         (fetch_json en ''data/encryption_config.json'' = Inr config \<and>
          fetch_json en ''data/cases.encrypted'' = Inl err \<longrightarrow>
            password_error (submitPassword rt en s) =
              ''Error loading data. Please check the console.'') \<and>
         (fetch_json en ''data/encryption_config.json'' = Inr config \<and>
          fetch_json en ''data/cases.encrypted'' = Inr encrypted \<and>
          truthy (decryptData rt encrypted (JStr (password_input en)) config) \<and>
          fetch_json en ''data/metadata.json'' = Inl err \<longrightarrow>
            password_error (submitPassword rt en s) =
              ''Error loading data. Please check the console.'') \<and>
         (fetch_json en ''data/encryption_config.json'' = Inr config \<and>
          fetch_json en ''data/cases.encrypted'' = Inr encrypted \<and>
          (decryptedStr rt encrypted (JStr (password_input en)) config = Inl err \<or>
           (decryptedStr rt encrypted (JStr (password_input en)) config = Inr str \<and>
            JSON_parse rt str = Inl err)) \<longrightarrow>
            submitPassword rt en s =
              s\<lparr>password_error := ''Incorrect password. Please try again.'',
                trace := trace s @
                  [Fetched ''data/encryption_config.json'' (Inr config),
                   Fetched ''data/cases.encrypted'' (Inr encrypted),
                   DecryptCall encrypted (JStr (password_input en)) config]\<rparr>)"
proof (intro conjI impI)
  assume "fetch_json en ''data/encryption_config.json'' = Inl err"
  from submit_config_fails [OF assms this]
  show "password_error (submitPassword rt en s) =
      ''Error loading data. Please check the console.''"
    by simp
next
  assume "fetch_json en ''data/encryption_config.json'' = Inr config \<and>
      fetch_json en ''data/cases.encrypted'' = Inl err"
  then have "submitPassword rt en s =
      s\<lparr>password_error := ''Error loading data. Please check the console.'',
        trace := trace s @ [Fetched ''data/encryption_config.json'' (Inr config),
                            Fetched ''data/cases.encrypted'' (Inl err)]\<rparr>"
    using submit_envelope_fails [OF assms] by blast
  then show "password_error (submitPassword rt en s) =
      ''Error loading data. Please check the console.''"
    by simp
next
  assume "fetch_json en ''data/encryption_config.json'' = Inr config \<and>
      fetch_json en ''data/cases.encrypted'' = Inr encrypted \<and>
      truthy (decryptData rt encrypted (JStr (password_input en)) config) \<and>
      fetch_json en ''data/metadata.json'' = Inl err"
  then have "submitPassword rt en s =
      s\<lparr>casesData := decryptData rt encrypted (JStr (password_input en)) config,
        storedPassword := JStr (password_input en),
        password_error := ''Error loading data. Please check the console.'',
        trace := trace s @ [Fetched ''data/encryption_config.json'' (Inr config),
                            Fetched ''data/cases.encrypted'' (Inr encrypted),
                            DecryptCall encrypted (JStr (password_input en)) config,
                            Fetched ''data/metadata.json'' (Inl err)]\<rparr>"
    using submit_metadata_fails [OF assms] by blast
  then show "password_error (submitPassword rt en s) =
      ''Error loading data. Please check the console.''"
    by simp
next
  assume a: "fetch_json en ''data/encryption_config.json'' = Inr config \<and>
      fetch_json en ''data/cases.encrypted'' = Inr encrypted \<and>
      (decryptedStr rt encrypted (JStr (password_input en)) config = Inl err \<or>
       (decryptedStr rt encrypted (JStr (password_input en)) config = Inr str \<and>
        JSON_parse rt str = Inl err))"
  then have "decryptData rt encrypted (JStr (password_input en)) config = JNull"
    using decryptData_failed decryptData_unparsable by blast
  then have "\<not> truthy (decryptData rt encrypted (JStr (password_input en)) config)"
    by simp
  with a show "submitPassword rt en s =
      s\<lparr>password_error := ''Incorrect password. Please try again.'',
        trace := trace s @
          [Fetched ''data/encryption_config.json'' (Inr config),
           Fetched ''data/cases.encrypted'' (Inr encrypted),
           DecryptCall encrypted (JStr (password_input en)) config]\<rparr>"
    using submit_rejected [OF assms] by blast
qed

theorem submit_error_messages_witness:
  "password_error (submitPassword sample_platform (sample_env ''ab'' offline_server) sample_initial)
     = ''Error loading data. Please check the console.'' \<and>
   password_error (submitPassword sample_platform
      (sample_env ''zz'' (sample_server (config_file scenario_config) sample_envelope))
      sample_initial) = ''Incorrect password. Please try again.'' \<and>
   password_error (submitPassword sample_platform
      (sample_env ''ab'' (sample_server (config_file scenario_config) damaged_envelope))
      sample_initial) = ''Incorrect password. Please try again.''"
proof -
  let ?off = "sample_env ''ab'' offline_server"
  let ?wrong = "sample_env ''zz'' (sample_server (config_file scenario_config) sample_envelope)"
  let ?damaged = "sample_env ''ab'' (sample_server (config_file scenario_config) damaged_envelope)"
  have off: "password_input ?off \<noteq> []"
    and off_config: "fetch_json ?off ''data/encryption_config.json'' = Inl (Error ''Failed to fetch'')"
    by (simp_all add: sample_env_def offline_server_def)
  have wrong: "password_input ?wrong \<noteq> []"
    and wrong_fetch: "fetch_json ?wrong ''data/encryption_config.json'' = Inr (config_file scenario_config)"
      "fetch_json ?wrong ''data/cases.encrypted'' = Inr sample_envelope"
    by (simp_all add: sample_env_def sample_server_def)
  have wrong_str: "decryptedStr sample_platform sample_envelope (JStr (password_input ?wrong))
      (config_file scenario_config) = Inr [CHR ''*'', CHR 0x00, CHR '','']"
    by (simp add: sample_env_def sample_envelope_def sample_defs decrypt_defs)
  have wrong_parse: "JSON_parse sample_platform [CHR ''*'', CHR 0x00, CHR '',''] = Inl SyntaxError"
    by (simp add: sample_platform_def sample_parse_def)
  have damaged: "password_input ?damaged \<noteq> []"
    and damaged_fetch:
      "fetch_json ?damaged ''data/encryption_config.json'' = Inr (config_file scenario_config)"
      "fetch_json ?damaged ''data/cases.encrypted'' = Inr damaged_envelope"
    by (simp_all add: sample_env_def sample_server_def)
  have damaged_str: "decryptedStr sample_platform damaged_envelope (JStr (password_input ?damaged))
      (config_file scenario_config) = Inl TypeError"
    by (simp add: sample_env_def damaged_envelope_def sample_defs decrypt_defs)
  from submit_error_messages [OF off, where err = "Error ''Failed to fetch''"
      and rt = sample_platform and s = sample_initial] off_config
  have m1: "password_error (submitPassword sample_platform ?off sample_initial) =
      ''Error loading data. Please check the console.''"
    by blast
  from submit_error_messages [OF wrong, where err = SyntaxError and rt = sample_platform
      and s = sample_initial and config = "config_file scenario_config"
      and encrypted = sample_envelope and str = "[CHR ''*'', CHR 0x00, CHR '','']"]
    wrong_fetch wrong_str wrong_parse
  have "submitPassword sample_platform ?wrong sample_initial =
      sample_initial\<lparr>password_error := ''Incorrect password. Please try again.'',
        trace := trace sample_initial @
          [Fetched ''data/encryption_config.json'' (Inr (config_file scenario_config)),
           Fetched ''data/cases.encrypted'' (Inr sample_envelope),
           DecryptCall sample_envelope (JStr (password_input ?wrong))
             (config_file scenario_config)]\<rparr>"
    by blast
  then have m2: "password_error (submitPassword sample_platform ?wrong sample_initial) =
      ''Incorrect password. Please try again.''"
    by simp
  from submit_error_messages [OF damaged, where err = TypeError and rt = sample_platform
      and s = sample_initial and config = "config_file scenario_config"
      and encrypted = damaged_envelope]
    damaged_fetch damaged_str
  have "submitPassword sample_platform ?damaged sample_initial =
      sample_initial\<lparr>password_error := ''Incorrect password. Please try again.'',
        trace := trace sample_initial @
          [Fetched ''data/encryption_config.json'' (Inr (config_file scenario_config)),
           Fetched ''data/cases.encrypted'' (Inr damaged_envelope),
           DecryptCall damaged_envelope (JStr (password_input ?damaged))
             (config_file scenario_config)]\<rparr>"
    by blast
  then have m3: "password_error (submitPassword sample_platform ?damaged sample_initial) =
      ''Incorrect password. Please try again.''"
    by simp
  from m1 m2 m3 show ?thesis by simp
qed

section \<open>C9: a plaintext that parses to a falsy value\<close>

text \<open>
  C9. When decryption and UTF-8 decoding succeed and the text parses to a falsy value
  (\<^verbatim>\<open>null\<close>, \<^verbatim>\<open>false\<close>, \<^verbatim>\<open>0\<close>, the empty string), \<^verbatim>\<open>submitPassword\<close> shows
  \<^verbatim>\<open>Incorrect password. Please try again.\<close> and leaves \<^verbatim>\<open>casesData\<close> and \<^verbatim>\<open>storedPassword\<close>
  as they were; the state it reaches is the one reached when decryption fails, on any
  platform on which it fails.
\<close>

theorem falsy_plaintext_rejected:
  assumes "password_input en \<noteq> []"
    and "fetch_json en ''data/encryption_config.json'' = Inr config"
    and "fetch_json en ''data/cases.encrypted'' = Inr encrypted"
    and "decryptedStr rt encrypted (JStr (password_input en)) config = Inr str"
    and "JSON_parse rt str = Inr v"
    and "\<not> truthy v"
  shows "password_error (submitPassword rt en s) = ''Incorrect password. Please try again.'' \<and>
         casesData (submitPassword rt en s) = casesData s \<and>
         storedPassword (submitPassword rt en s) = storedPassword s \<and>
         modal_hidden (submitPassword rt en s) = modal_hidden s \<and>
         app_hidden (submitPassword rt en s) = app_hidden s \<and>
         (\<forall>rt' err. decryptedStr rt' encrypted (JStr (password_input en)) config = Inl err \<longrightarrow>
            submitPassword rt en s = submitPassword rt' en s)"
proof -
  have "decryptData rt encrypted (JStr (password_input en)) config = v"
    using assms(4,5) by (rule decryptData_parsed)
  with assms(6) have "\<not> truthy (decryptData rt encrypted (JStr (password_input en)) config)"
    by simp
  from submit_rejected [OF assms(1-3) this]
  have here: "submitPassword rt en s =
      s\<lparr>password_error := ''Incorrect password. Please try again.'',
        trace := trace s @ [Fetched ''data/encryption_config.json'' (Inr config),
                            Fetched ''data/cases.encrypted'' (Inr encrypted),
                            DecryptCall encrypted (JStr (password_input en)) config]\<rparr>" .
  have there: "submitPassword rt' en s =
      s\<lparr>password_error := ''Incorrect password. Please try again.'',
        trace := trace s @ [Fetched ''data/encryption_config.json'' (Inr config),
                            Fetched ''data/cases.encrypted'' (Inr encrypted),
                            DecryptCall encrypted (JStr (password_input en)) config]\<rparr>"
    if "decryptedStr rt' encrypted (JStr (password_input en)) config = Inl err" for rt' err
  proof -
    from that have "decryptData rt' encrypted (JStr (password_input en)) config = JNull"
      by (rule decryptData_failed)
    then have "\<not> truthy (decryptData rt' encrypted (JStr (password_input en)) config)"
      by simp
    from submit_rejected [OF assms(1-3) this] show ?thesis .
  qed
  show ?thesis
    using here there by simp
qed

theorem falsy_plaintext_rejected_witness:
  "decryptedStr sample_platform zero_envelope (JStr ''ab'') (config_file scenario_config) = Inr ''0'' \<and>
   JSON_parse sample_platform ''0'' = Inr (JNum (Num 0)) \<and>
   password_error (submitPassword sample_platform
      (sample_env ''ab'' (sample_server (config_file scenario_config) zero_envelope))
      sample_initial) = ''Incorrect password. Please try again.'' \<and>
   casesData (submitPassword sample_platform
      (sample_env ''ab'' (sample_server (config_file scenario_config) zero_envelope))
      sample_initial) = JArr [] \<and>
   storedPassword (submitPassword sample_platform
      (sample_env ''ab'' (sample_server (config_file scenario_config) zero_envelope))
      sample_initial) = JNull"
proof -
  let ?en = "sample_env ''ab'' (sample_server (config_file scenario_config) zero_envelope)"
  have pw: "password_input ?en \<noteq> []"
    and config: "fetch_json ?en ''data/encryption_config.json'' = Inr (config_file scenario_config)"
    and encrypted: "fetch_json ?en ''data/cases.encrypted'' = Inr zero_envelope"
    by (simp_all add: sample_env_def sample_server_def)
  have str: "decryptedStr sample_platform zero_envelope (JStr ''ab'')
      (config_file scenario_config) = Inr ''0''"
    by (simp add: zero_envelope_def sample_defs decrypt_defs)
  then have str': "decryptedStr sample_platform zero_envelope (JStr (password_input ?en))
      (config_file scenario_config) = Inr ''0''"
    by (simp add: sample_env_def)
  have parsed: "JSON_parse sample_platform ''0'' = Inr (JNum (Num 0))"
    by (simp add: sample_platform_def sample_parse_def)
  have falsy: "\<not> truthy (JNum (Num 0))"
    by simp
  from falsy_plaintext_rejected [OF pw config encrypted str' parsed falsy, of sample_initial]
  have "password_error (submitPassword sample_platform ?en sample_initial) =
      ''Incorrect password. Please try again.'' \<and>
    casesData (submitPassword sample_platform ?en sample_initial) = casesData sample_initial \<and>
    storedPassword (submitPassword sample_platform ?en sample_initial) =
      storedPassword sample_initial"
    by blast
  with str parsed show ?thesis
    by (simp add: sample_initial_def)
qed

section \<open>C1: a wrong password\<close>

text \<open>
  Any key derivation whose keys have bounded length maps two different passwords to the
  same key, and \<^verbatim>\<open>decryptData\<close> cannot tell such passwords apart.
\<close>

lemma key_collision_exists:
  assumes "\<forall>p. \<exists>k. PBKDF2 rt (JStr p) salt_wa opts = Inr k \<and> length k \<le> n"
  shows "\<exists>p p'. p \<noteq> p' \<and> PBKDF2 rt (JStr p) salt_wa opts = PBKDF2 rt (JStr p') salt_wa opts"
proof (rule ccontr)
  assume "\<not> ?thesis"
  then have inj: "inj (\<lambda>p. PBKDF2 rt (JStr p) salt_wa opts)"
    by (auto simp add: inj_on_def)
  have "range (\<lambda>p. PBKDF2 rt (JStr p) salt_wa opts)
      \<subseteq> Inr ` {k. set k \<subseteq> UNIV \<and> length k \<le> n}"
  proof
    fix x
    assume "x \<in> range (\<lambda>p. PBKDF2 rt (JStr p) salt_wa opts)"
    then obtain p where x: "x = PBKDF2 rt (JStr p) salt_wa opts"
      by auto
    from assms obtain k where "PBKDF2 rt (JStr p) salt_wa opts = Inr k" "length k \<le> n"
      by blast
    with x show "x \<in> Inr ` {k. set k \<subseteq> UNIV \<and> length k \<le> n}"
      by simp
  qed
  moreover have "finite (Inr ` {k :: wordarray. set k \<subseteq> UNIV \<and> length k \<le> n})"
    by (intro finite_imageI finite_lists_length_le) simp
  ultimately have "finite (range (\<lambda>p. PBKDF2 rt (JStr p) salt_wa opts))"
    by (rule finite_subset)
  with inj have "finite (UNIV :: string set)"
    by (rule finite_imageD [rotated])
  then show False
    using infinite_UNIV_listI by blast
qed

lemma same_key_same_result:
  assumes "\<And>salt_wa opts. PBKDF2 rt p salt_wa opts = PBKDF2 rt p' salt_wa opts"
  shows "decryptData rt encrypted p config = decryptData rt encrypted p' config"
proof -
  have "derive_key rt p salt_wa config = derive_key rt p' salt_wa config" for salt_wa
    by (simp add: derive_key_def assms split: sum.splits)
  then have "decryptedStr rt encrypted p config = decryptedStr rt encrypted p' config"
    by (simp add: decryptedStr_def split: sum.splits)
  then show ?thesis
    by (simp add: decryptData_def)
qed

text \<open>
  C1, as stated, fails: on the small platform the passwords \<^verbatim>\<open>ab\<close> and \<^verbatim>\<open>ba\<close> derive the
  same key. The envelope encrypted under \<^verbatim>\<open>ab\<close> is decrypted by \<^verbatim>\<open>ba\<close> to a value that is
  not \<^verbatim>\<open>null\<close>, and \<^verbatim>\<open>submitPassword\<close> stores the data and the password and hides the
  password dialog.
\<close>

theorem wrong_password_accepted:
  "reference_encrypt sample_platform sample_encryptor scenario_config ''ab'' [1, 2] [3] ''[1]''
     = Inr sample_envelope \<and>
   ''ba'' \<noteq> ''ab'' \<and>
   decryptData sample_platform sample_envelope (JStr ''ba'') (config_file scenario_config)
     = JArr [JNum (Num 1)] \<and>
   decryptData sample_platform sample_envelope (JStr ''ba'') (config_file scenario_config)
     \<noteq> JNull \<and>
   casesData (submitPassword sample_platform
      (sample_env ''ba'' (sample_server (config_file scenario_config) sample_envelope))
      sample_initial) = JArr [JNum (Num 1)] \<and>
   storedPassword (submitPassword sample_platform
      (sample_env ''ba'' (sample_server (config_file scenario_config) sample_envelope))
      sample_initial) = JStr ''ba'' \<and>
   modal_hidden (submitPassword sample_platform
      (sample_env ''ba'' (sample_server (config_file scenario_config) sample_envelope))
      sample_initial)"
proof -
  have enc: "reference_encrypt sample_platform sample_encryptor scenario_config ''ab'' [1, 2] [3]
      ''[1]'' = Inr sample_envelope"
    by (simp add: sample_envelope_def sample_defs)
  have dec: "decryptData sample_platform sample_envelope (JStr ''ba'')
      (config_file scenario_config) = JArr [JNum (Num 1)]"
    by (simp add: sample_envelope_def sample_defs decrypt_defs)
  have run: "casesData (submitPassword sample_platform
      (sample_env ''ba'' (sample_server (config_file scenario_config) sample_envelope))
      sample_initial) = JArr [JNum (Num 1)]"
    "storedPassword (submitPassword sample_platform
      (sample_env ''ba'' (sample_server (config_file scenario_config) sample_envelope))
      sample_initial) = JStr ''ba''"
    "modal_hidden (submitPassword sample_platform
      (sample_env ''ba'' (sample_server (config_file scenario_config) sample_envelope))
      sample_initial)"
    by (simp_all add: session_defs dec)
  show ?thesis
    using enc dec run by simp
qed

text \<open>
  C1, amended. Whenever a step of \<^verbatim>\<open>decryptData\<close> throws (decoding a field, deriving the
  key, decrypting, reading the bytes as UTF-8, parsing the text), \<^verbatim>\<open>decryptData\<close> returns
  \<^verbatim>\<open>null\<close>; whenever it returns a value that is not truthy, \<^verbatim>\<open>submitPassword\<close> shows
  \<^verbatim>\<open>Incorrect password. Please try again.\<close> and changes neither \<^verbatim>\<open>casesData\<close> nor
  \<^verbatim>\<open>storedPassword\<close> nor the visibility of the dialog and of the application; and a submit
  attempt that changes any of these has fetched a configuration and an envelope on which
  \<^verbatim>\<open>decryptData\<close> returned a truthy value for the submitted password. Nothing else is
  checked about the password.
\<close>

theorem success_only_on_truthy_result:
  "(decryptedStr rt encrypted password config = Inl err \<longrightarrow>
      decryptData rt encrypted password config = JNull) \<and>
   (decryptedStr rt encrypted password config = Inr str \<and> JSON_parse rt str = Inl err \<longrightarrow>
      decryptData rt encrypted password config = JNull) \<and>
   (password_input en \<noteq> [] \<and>
    fetch_json en ''data/encryption_config.json'' = Inr config \<and>
    fetch_json en ''data/cases.encrypted'' = Inr encrypted \<and>
    \<not> truthy (decryptData rt encrypted (JStr (password_input en)) config) \<longrightarrow>
      password_error (submitPassword rt en s) = ''Incorrect password. Please try again.'' \<and>
      casesData (submitPassword rt en s) = casesData s \<and>
      storedPassword (submitPassword rt en s) = storedPassword s \<and>
      modal_hidden (submitPassword rt en s) = modal_hidden s \<and>
      app_hidden (submitPassword rt en s) = app_hidden s) \<and>
   (casesData (submitPassword rt en s) \<noteq> casesData s \<or>
    storedPassword (submitPassword rt en s) \<noteq> storedPassword s \<or>
    modal_hidden (submitPassword rt en s) \<noteq> modal_hidden s \<or>
    app_hidden (submitPassword rt en s) \<noteq> app_hidden s \<longrightarrow>
      (\<exists>c e. fetch_json en ''data/encryption_config.json'' = Inr c \<and>
             fetch_json en ''data/cases.encrypted'' = Inr e \<and>
             truthy (decryptData rt e (JStr (password_input en)) c)))"
proof (intro conjI impI)
  assume "decryptedStr rt encrypted password config = Inl err"
  then show "decryptData rt encrypted password config = JNull"
    by (rule decryptData_failed)
next
  assume "decryptedStr rt encrypted password config = Inr str \<and> JSON_parse rt str = Inl err"
  then show "decryptData rt encrypted password config = JNull"
    using decryptData_unparsable by blast
next
  assume a: "password_input en \<noteq> [] \<and>
    fetch_json en ''data/encryption_config.json'' = Inr config \<and>
    fetch_json en ''data/cases.encrypted'' = Inr encrypted \<and>
    \<not> truthy (decryptData rt encrypted (JStr (password_input en)) config)"
  then have eq: "submitPassword rt en s =
      s\<lparr>password_error := ''Incorrect password. Please try again.'',
        trace := trace s @ [Fetched ''data/encryption_config.json'' (Inr config),
                            Fetched ''data/cases.encrypted'' (Inr encrypted),
                            DecryptCall encrypted (JStr (password_input en)) config]\<rparr>"
    using submit_rejected by blast
  show "password_error (submitPassword rt en s) = ''Incorrect password. Please try again.''"
    by (simp add: eq)
  show "casesData (submitPassword rt en s) = casesData s"
    by (simp add: eq)
  show "storedPassword (submitPassword rt en s) = storedPassword s"
    by (simp add: eq)
  show "modal_hidden (submitPassword rt en s) = modal_hidden s"
    by (simp add: eq)
  show "app_hidden (submitPassword rt en s) = app_hidden s"
    by (simp add: eq)
next
  assume changed: "casesData (submitPassword rt en s) \<noteq> casesData s \<or>
    storedPassword (submitPassword rt en s) \<noteq> storedPassword s \<or>
    modal_hidden (submitPassword rt en s) \<noteq> modal_hidden s \<or>
    app_hidden (submitPassword rt en s) \<noteq> app_hidden s"
  show "\<exists>c e. fetch_json en ''data/encryption_config.json'' = Inr c \<and>
             fetch_json en ''data/cases.encrypted'' = Inr e \<and>
             truthy (decryptData rt e (JStr (password_input en)) c)"
  proof (cases "password_input en = []")
    case True
    with changed show ?thesis by (simp add: submit_empty)
  next
    case False
    then show ?thesis
    proof (cases rule: submit_cases [where rt = rt])
      case (config_fails err)
      from submit_config_fails [OF False this] changed show ?thesis by simp
    next
      case (envelope_fails config err)
      from submit_envelope_fails [OF False this] changed show ?thesis by simp
    next
      case (rejected config encrypted)
      from submit_rejected [OF False this] changed show ?thesis by simp
    next
      case (metadata_fails config encrypted err)
      then show ?thesis by blast
    next
      case (accepted config encrypted md)
      then show ?thesis by blast
    qed
  qed
qed

theorem success_only_on_truthy_result_witness:
  "decryptedStr sample_platform damaged_envelope (JStr ''ab'') (config_file scenario_config)
     = Inl TypeError \<and>
   decryptData sample_platform damaged_envelope (JStr ''ab'') (config_file scenario_config)
     = JNull \<and>
   storedPassword (submitPassword sample_platform
      (sample_env ''zz'' (sample_server (config_file scenario_config) sample_envelope))
      sample_initial) = JNull \<and>
   storedPassword (submitPassword sample_platform
      (sample_env ''ab'' (sample_server (config_file scenario_config) sample_envelope))
      sample_initial) = JStr ''ab'' \<and>
   truthy (decryptData sample_platform sample_envelope (JStr ''ab'') (config_file scenario_config))"
proof -
  let ?wrong = "sample_env ''zz'' (sample_server (config_file scenario_config) sample_envelope)"
  let ?right = "sample_env ''ab'' (sample_server (config_file scenario_config) sample_envelope)"
  have str: "decryptedStr sample_platform damaged_envelope (JStr ''ab'')
      (config_file scenario_config) = Inl TypeError"
    by (simp add: damaged_envelope_def sample_defs decrypt_defs)
  from success_only_on_truthy_result [of sample_platform damaged_envelope "JStr ''ab''"
      "config_file scenario_config" TypeError] str
  have null: "decryptData sample_platform damaged_envelope (JStr ''ab'')
      (config_file scenario_config) = JNull"
    by blast
  have wrong: "password_input ?wrong \<noteq> []"
    "fetch_json ?wrong ''data/encryption_config.json'' = Inr (config_file scenario_config)"
    "fetch_json ?wrong ''data/cases.encrypted'' = Inr sample_envelope"
    "\<not> truthy (decryptData sample_platform sample_envelope (JStr (password_input ?wrong))
        (config_file scenario_config))"
    by (simp_all add: sample_env_def sample_server_def sample_envelope_def sample_defs decrypt_defs)
  from success_only_on_truthy_result [of sample_platform sample_envelope _
      "config_file scenario_config" _ _ ?wrong sample_initial] wrong
  have "storedPassword (submitPassword sample_platform ?wrong sample_initial) =
      storedPassword sample_initial"
    by blast
  then have rejected: "storedPassword (submitPassword sample_platform ?wrong sample_initial) = JNull"
    by (simp add: sample_initial_def)
  have stored: "storedPassword (submitPassword sample_platform ?right sample_initial) = JStr ''ab''"
    by (simp add: session_defs sample_envelope_decrypts)
  then have "storedPassword (submitPassword sample_platform ?right sample_initial) \<noteq>
      storedPassword sample_initial"
    by (simp add: sample_initial_def)
  with success_only_on_truthy_result [of sample_platform _ _ _ _ _ ?right sample_initial]
  obtain c e where "fetch_json ?right ''data/encryption_config.json'' = Inr c"
    "fetch_json ?right ''data/cases.encrypted'' = Inr e"
    "truthy (decryptData sample_platform e (JStr (password_input ?right)) c)"
    by blast
  then have "truthy (decryptData sample_platform sample_envelope (JStr ''ab'')
      (config_file scenario_config))"
    by (simp add: sample_env_def sample_server_def)
  with str null rejected stored show ?thesis by simp
qed

section \<open>C6: a malformed configuration\<close>

lemma pbkdf2_options_null:
  "config = JNull \<or> config = JUndefined \<Longrightarrow> pbkdf2_options rt config = Inl TypeError"
  by (auto simp add: pbkdf2_options_def)

lemma get_prop_defined:
  "config \<noteq> JNull \<Longrightarrow> config \<noteq> JUndefined \<Longrightarrow> \<exists>v. get_prop config name = Inr v"
  by (cases config) (auto split: option.splits)

lemma pbkdf2_options_failed:
  assumes "pbkdf2_options rt config = Inl err"
  shows "((config = JNull \<or> config = JUndefined) \<and> err = TypeError) \<or>
         (\<exists>ks. get_prop config ''keySize'' = Inr ks \<and> ToNumber rt ks = Inl err)"
proof (cases "config = JNull \<or> config = JUndefined")
  case True
  with assms pbkdf2_options_null [OF True, of rt] show ?thesis
    by simp
next
  case False
  then obtain ks its where "get_prop config ''keySize'' = Inr ks"
    "get_prop config ''iterations'' = Inr its"
    using get_prop_defined [of config] by blast
  with assms show ?thesis
    by (simp add: pbkdf2_options_def split: sum.splits)
qed

text \<open>
  C6, as stated, fails: with a configuration that lacks \<^verbatim>\<open>keySize\<close> and \<^verbatim>\<open>iterations\<close>, and
  with the configuration \<^verbatim>\<open>null\<close> (for which the key derivation step throws a TypeError),
  the right password gets the message of a wrong password,
  \<^verbatim>\<open>Incorrect password. Please try again.\<close>, and no other report.
\<close>

theorem malformed_config_reported_as_wrong_password:
  "get_prop incomplete_config ''keySize'' = Inr JUndefined \<and>
   get_prop incomplete_config ''iterations'' = Inr JUndefined \<and>
   password_error (submitPassword sample_platform
      (sample_env ''ab'' (sample_server incomplete_config sample_envelope)) sample_initial)
     = ''Incorrect password. Please try again.'' \<and>
   derive_key sample_platform (JStr ''ab'') [1, 2] JNull = Inl TypeError \<and>
   password_error (submitPassword sample_platform
      (sample_env ''ab'' (sample_server JNull sample_envelope)) sample_initial)
     = ''Incorrect password. Please try again.'' \<and>
   password_error (submitPassword sample_platform
      (sample_env ''zz'' (sample_server (config_file scenario_config) sample_envelope))
      sample_initial)
     = ''Incorrect password. Please try again.''"
proof -
  have d1: "decryptData sample_platform sample_envelope (JStr ''ab'') incomplete_config = JNull"
    by (simp add: incomplete_config_def sample_envelope_def sample_defs decrypt_defs)
  have d2: "decryptData sample_platform sample_envelope (JStr ''ab'') JNull = JNull"
    by (simp add: sample_envelope_def sample_defs decrypt_defs)
  have d3: "decryptData sample_platform sample_envelope (JStr ''zz'') (config_file scenario_config)
      = JNull"
    by (simp add: sample_envelope_def sample_defs decrypt_defs)
  have k: "derive_key sample_platform (JStr ''ab'') [1, 2] JNull = Inl TypeError"
    by (simp add: derive_key_def pbkdf2_options_def)
  show ?thesis
    using k by (simp add: session_defs d1 d2 d3) (simp add: incomplete_config_def)
qed

text \<open>
  C6, amended. The key derivation step of \<^verbatim>\<open>decryptData\<close> throws by itself only when the
  configuration is \<^verbatim>\<open>null\<close> or \<^verbatim>\<open>undefined\<close> (a TypeError) or when its field \<^verbatim>\<open>keySize\<close>
  cannot be converted to a number; every other exception of the step is one thrown by
  \<^verbatim>\<open>CryptoJS.PBKDF2\<close>. An exception of the step is not reported as a
  configuration error: once the configuration and the envelope are fetched,
  \<^verbatim>\<open>submitPassword\<close> shows \<^verbatim>\<open>Incorrect password. Please try again.\<close>, as for a wrong
  password, and the message \<^verbatim>\<open>Error loading data. Please check the console.\<close> appears only
  after \<^verbatim>\<open>decryptData\<close> has returned a truthy value.
\<close>

theorem config_error_reported_as_incorrect_password:
  "(derive_key rt password salt_wa config = Inl err \<longrightarrow>
      ((config = JNull \<or> config = JUndefined) \<and> err = TypeError) \<or>
      (\<exists>ks. get_prop config ''keySize'' = Inr ks \<and> ToNumber rt ks = Inl err) \<or>
      (\<exists>opts. pbkdf2_options rt config = Inr opts \<and> PBKDF2 rt password salt_wa opts = Inl err)) \<and>
   (password_input en \<noteq> [] \<and>
    fetch_json en ''data/encryption_config.json'' = Inr config \<and>
    fetch_json en ''data/cases.encrypted'' = Inr encrypted \<and>
    parse_field rt encrypted ''ciphertext'' = Inr ciphertext_wa \<and>
    parse_field rt encrypted ''iv'' = Inr iv_wa \<and>
    parse_field rt encrypted ''salt'' = Inr salt_wa \<and>
    derive_key rt (JStr (password_input en)) salt_wa config = Inl err \<longrightarrow>
      submitPassword rt en s =
        s\<lparr>password_error := ''Incorrect password. Please try again.'',
          trace := trace s @
            [Fetched ''data/encryption_config.json'' (Inr config),
             Fetched ''data/cases.encrypted'' (Inr encrypted),
             DecryptCall encrypted (JStr (password_input en)) config]\<rparr>) \<and>
   (password_input en \<noteq> [] \<and>
    fetch_json en ''data/encryption_config.json'' = Inr config \<and>
    fetch_json en ''data/cases.encrypted'' = Inr encrypted \<and>
    password_error (submitPassword rt en s) = ''Error loading data. Please check the console.'' \<longrightarrow>
      truthy (decryptData rt encrypted (JStr (password_input en)) config))"
proof (intro conjI impI)
  assume failed: "derive_key rt password salt_wa config = Inl err"
  show "((config = JNull \<or> config = JUndefined) \<and> err = TypeError) \<or>
      (\<exists>ks. get_prop config ''keySize'' = Inr ks \<and> ToNumber rt ks = Inl err) \<or>
      (\<exists>opts. pbkdf2_options rt config = Inr opts \<and> PBKDF2 rt password salt_wa opts = Inl err)"
  proof (cases "pbkdf2_options rt config")
    case (Inl e)
    with failed have "e = err"
      by (simp add: derive_key_def)
    with Inl pbkdf2_options_failed show ?thesis
      by blast
  next
    case (Inr opts)
    with failed show ?thesis
      by (simp add: derive_key_def)
  qed
next
  assume a: "password_input en \<noteq> [] \<and>
    fetch_json en ''data/encryption_config.json'' = Inr config \<and>
    fetch_json en ''data/cases.encrypted'' = Inr encrypted \<and>
    parse_field rt encrypted ''ciphertext'' = Inr ciphertext_wa \<and>
    parse_field rt encrypted ''iv'' = Inr iv_wa \<and>
    parse_field rt encrypted ''salt'' = Inr salt_wa \<and>
    derive_key rt (JStr (password_input en)) salt_wa config = Inl err"
  then have "decryptedStr rt encrypted (JStr (password_input en)) config = Inl err"
    by (simp add: decryptedStr_def)
  then have "decryptData rt encrypted (JStr (password_input en)) config = JNull"
    by (rule decryptData_failed)
  then have "\<not> truthy (decryptData rt encrypted (JStr (password_input en)) config)"
    by simp
  with a show "submitPassword rt en s =
      s\<lparr>password_error := ''Incorrect password. Please try again.'',
        trace := trace s @
          [Fetched ''data/encryption_config.json'' (Inr config),
           Fetched ''data/cases.encrypted'' (Inr encrypted),
           DecryptCall encrypted (JStr (password_input en)) config]\<rparr>"
    using submit_rejected by blast
next
  assume a: "password_input en \<noteq> [] \<and>
    fetch_json en ''data/encryption_config.json'' = Inr config \<and>
    fetch_json en ''data/cases.encrypted'' = Inr encrypted \<and>
    password_error (submitPassword rt en s) = ''Error loading data. Please check the console.''"
  show "truthy (decryptData rt encrypted (JStr (password_input en)) config)"
  proof (rule ccontr)
    assume "\<not> truthy (decryptData rt encrypted (JStr (password_input en)) config)"
    with a have "submitPassword rt en s =
        s\<lparr>password_error := ''Incorrect password. Please try again.'',
          trace := trace s @
            [Fetched ''data/encryption_config.json'' (Inr config),
             Fetched ''data/cases.encrypted'' (Inr encrypted),
             DecryptCall encrypted (JStr (password_input en)) config]\<rparr>"
      using submit_rejected by blast
    then have "password_error (submitPassword rt en s) = ''Incorrect password. Please try again.''"
      by simp
    with a show False by simp
  qed
qed

theorem config_error_reported_as_incorrect_password_witness:
  "derive_key sample_platform (JStr ''ab'') [1, 2] JNull = Inl TypeError \<and>
   pbkdf2_options sample_platform JNull = Inl TypeError \<and>
   submitPassword sample_platform
      (sample_env ''ab'' (sample_server JNull sample_envelope)) sample_initial =
     sample_initial\<lparr>password_error := ''Incorrect password. Please try again.'',
       trace := [Fetched ''data/encryption_config.json'' (Inr JNull),
                 Fetched ''data/cases.encrypted'' (Inr sample_envelope),
                 DecryptCall sample_envelope (JStr ''ab'') JNull]\<rparr>"
proof -
  let ?en = "sample_env ''ab'' (sample_server JNull sample_envelope)"
  have k: "derive_key sample_platform (JStr ''ab'') [1, 2] JNull = Inl TypeError"
    by (simp add: derive_key_def pbkdf2_options_def)
  have o: "pbkdf2_options sample_platform JNull = Inl TypeError"
    by (simp add: pbkdf2_options_def)
  have pre: "password_input ?en \<noteq> []"
    "fetch_json ?en ''data/encryption_config.json'' = Inr JNull"
    "fetch_json ?en ''data/cases.encrypted'' = Inr sample_envelope"
    "parse_field sample_platform sample_envelope ''ciphertext'' = Inr [0xD0, 0xA6, 0xD2]"
    "parse_field sample_platform sample_envelope ''iv'' = Inr [3]"
    "parse_field sample_platform sample_envelope ''salt'' = Inr [1, 2]"
    "derive_key sample_platform (JStr (password_input ?en)) [1, 2] JNull = Inl TypeError"
    by (simp_all add: sample_env_def sample_server_def sample_envelope_def parse_field_def
        sample_platform_def sample_bytes_def derive_key_def pbkdf2_options_def)
  from config_error_reported_as_incorrect_password [of sample_platform _ "[1, 2]" JNull TypeError
      ?en sample_envelope "[0xD0, 0xA6, 0xD2]" "[3]" sample_initial] pre
  have "submitPassword sample_platform ?en sample_initial =
      sample_initial\<lparr>password_error := ''Incorrect password. Please try again.'',
        trace := trace sample_initial @
          [Fetched ''data/encryption_config.json'' (Inr JNull),
           Fetched ''data/cases.encrypted'' (Inr sample_envelope),
           DecryptCall sample_envelope (JStr (password_input ?en)) JNull]\<rparr>"
    by blast
  then have "submitPassword sample_platform ?en sample_initial =
      sample_initial\<lparr>password_error := ''Incorrect password. Please try again.'',
        trace := [Fetched ''data/encryption_config.json'' (Inr JNull),
                  Fetched ''data/cases.encrypted'' (Inr sample_envelope),
                  DecryptCall sample_envelope (JStr ''ab'') JNull]\<rparr>"
    by (simp add: sample_env_def sample_initial_def)
  with k o show ?thesis by simp
qed

section \<open>C2: the parameters of the key derivation\<close>

lemma derive_key_options:
  assumes "get_prop config ''keySize'' = Inr ks" and "ToNumber rt ks = Inr n"
    and "get_prop config ''iterations'' = Inr its"
  shows "derive_key rt password salt_wa config =
    PBKDF2 rt password salt_wa \<lparr>keySize = div32 n, iterations = its, hasher = SHA256\<rparr>"
  using assms by (simp add: derive_key_def pbkdf2_options_def)

lemma pbkdf2_options_cong:
  assumes "get_prop c1 ''keySize'' = get_prop c2 ''keySize''"
    and "get_prop c1 ''iterations'' = get_prop c2 ''iterations''"
  shows "pbkdf2_options rt c1 = pbkdf2_options rt c2"
  using assms by (simp add: pbkdf2_options_def split: sum.splits)

lemma derive_key_cong:
  assumes "get_prop c1 ''keySize'' = get_prop c2 ''keySize''"
    and "get_prop c1 ''iterations'' = get_prop c2 ''iterations''"
  shows "derive_key rt password salt_wa c1 = derive_key rt password salt_wa c2"
  using pbkdf2_options_cong [OF assms, of rt] by (simp add: derive_key_def)

lemma decryptData_cong:
  assumes "get_prop e1 ''ciphertext'' = get_prop e2 ''ciphertext''"
    and "get_prop e1 ''iv'' = get_prop e2 ''iv''"
    and "get_prop e1 ''salt'' = get_prop e2 ''salt''"
    and "get_prop c1 ''keySize'' = get_prop c2 ''keySize''"
    and "get_prop c1 ''iterations'' = get_prop c2 ''iterations''"
  shows "decryptData rt e1 password c1 = decryptData rt e2 password c2"
proof -
  have pf: "parse_field rt e1 ''ciphertext'' = parse_field rt e2 ''ciphertext''"
    "parse_field rt e1 ''iv'' = parse_field rt e2 ''iv''"
    "parse_field rt e1 ''salt'' = parse_field rt e2 ''salt''"
    using assms(1-3) by (simp_all add: parse_field_def)
  have dk: "derive_key rt password salt_wa c1 = derive_key rt password salt_wa c2" for salt_wa
    using assms(4,5) by (rule derive_key_cong)
  have "decryptedStr rt e1 password c1 = decryptedStr rt e2 password c2"
    by (simp add: decryptedStr_def pf dk split: sum.splits)
  then show ?thesis
    by (simp add: decryptData_def)
qed

text \<open>
  C2, as stated, fails: for the configuration file that names SHA512, the options passed
  to \<^verbatim>\<open>CryptoJS.PBKDF2\<close> name SHA256, the key derived on the small platform is not the key
  that SHA512 gives, and the envelope that the reference encryptor made under this
  configuration does not decrypt.
\<close>

theorem hasher_field_ignored:
  "get_prop (config_file sha512_config) ''hasher'' = Inr (JStr (algo_name SHA512)) \<and>
   pbkdf2_options sample_platform (config_file sha512_config) =
     Inr \<lparr>keySize = Num 8, iterations = JNum (Num 100000), hasher = SHA256\<rparr> \<and>
   derive_key sample_platform (JStr ''ab'') [1, 2] (config_file sha512_config) \<noteq>
     PBKDF2 sample_platform (JStr ''ab'') [1, 2]
       \<lparr>keySize = Num 8, iterations = JNum (Num 100000), hasher = SHA512\<rparr> \<and>
   reference_encrypt sample_platform sample_encryptor sha512_config ''ab'' [1, 2] [3] ''[1]'' =
     Inr (JObj [(''ciphertext'', JStr [CHR 0xD2, CHR 0xA8, CHR 0xD4]),
                (''iv'', JStr [CHR 0x03]),
                (''salt'', JStr [CHR 0x01, CHR 0x02])]) \<and>
   decryptData sample_platform
     (JObj [(''ciphertext'', JStr [CHR 0xD2, CHR 0xA8, CHR 0xD4]),
            (''iv'', JStr [CHR 0x03]),
            (''salt'', JStr [CHR 0x01, CHR 0x02])])
     (JStr ''ab'') (config_file sha512_config) = JNull"
  by (simp add: sample_defs decrypt_defs)

text \<open>
  C2, amended. The key derivation uses two of the three parameters of the configuration
  file: the key size, converted to a number and divided by 32, and the iteration count. The hash algorithm is always
  SHA256, and the field \<^verbatim>\<open>hasher\<close> of the file is not read: two configurations that agree on
  \<^verbatim>\<open>keySize\<close> and \<^verbatim>\<open>iterations\<close> give the same key and the same result of \<^verbatim>\<open>decryptData\<close>.
\<close>

theorem key_derivation_uses_keySize_and_iterations:
  "(get_prop config ''keySize'' = Inr ks \<and> ToNumber rt ks = Inr n \<and>
    get_prop config ''iterations'' = Inr its \<longrightarrow>
      derive_key rt password salt_wa config =
        PBKDF2 rt password salt_wa \<lparr>keySize = div32 n, iterations = its, hasher = SHA256\<rparr>) \<and>
   (get_prop c1 ''keySize'' = get_prop c2 ''keySize'' \<and>
    get_prop c1 ''iterations'' = get_prop c2 ''iterations'' \<longrightarrow>
      derive_key rt password salt_wa c1 = derive_key rt password salt_wa c2 \<and>
      decryptData rt encrypted password c1 = decryptData rt encrypted password c2)"
  using derive_key_options derive_key_cong decryptData_cong by blast

theorem key_derivation_uses_keySize_and_iterations_witness:
  "derive_key sample_platform (JStr ''ab'') [1, 2] (config_file sha512_config) =
     PBKDF2 sample_platform (JStr ''ab'') [1, 2]
       \<lparr>keySize = Num 8, iterations = JNum (Num 100000), hasher = SHA256\<rparr> \<and>
   derive_key sample_platform (JStr ''ab'') [1, 2] (config_file sha512_config) =
     derive_key sample_platform (JStr ''ab'') [1, 2] (config_file scenario_config) \<and>
   decryptData sample_platform sample_envelope (JStr ''ab'') (config_file sha512_config) =
     JArr [JNum (Num 1)]"
proof -
  have f: "get_prop (config_file sha512_config) ''keySize'' = Inr (JNum (Num 256))"
    "get_prop (config_file sha512_config) ''iterations'' = Inr (JNum (Num 100000))"
    "get_prop (config_file sha512_config) ''keySize'' =
       get_prop (config_file scenario_config) ''keySize''"
    "get_prop (config_file sha512_config) ''iterations'' =
       get_prop (config_file scenario_config) ''iterations''"
    by (simp_all add: config_file_def sha512_config_def scenario_config_def)
  have n: "ToNumber sample_platform (JNum (Num 256)) = Inr (Num 256)"
    by simp
  from key_derivation_uses_keySize_and_iterations
    [of "config_file sha512_config" "JNum (Num 256)" sample_platform "Num 256"
        "JNum (Num 100000)" "JStr ''ab''" "[1, 2]" "config_file sha512_config"
        "config_file scenario_config" sample_envelope] f n
  have "derive_key sample_platform (JStr ''ab'') [1, 2] (config_file sha512_config) =
      PBKDF2 sample_platform (JStr ''ab'') [1, 2]
        \<lparr>keySize = div32 (Num 256), iterations = JNum (Num 100000), hasher = SHA256\<rparr>"
    and "derive_key sample_platform (JStr ''ab'') [1, 2] (config_file sha512_config) =
      derive_key sample_platform (JStr ''ab'') [1, 2] (config_file scenario_config)"
    and "decryptData sample_platform sample_envelope (JStr ''ab'') (config_file sha512_config) =
      decryptData sample_platform sample_envelope (JStr ''ab'') (config_file scenario_config)"
    by blast+
  then show ?thesis
    by (simp add: sample_envelope_decrypts)
qed

section \<open>C5: the round trip\<close>




section \<open>The mechanism chain: which labels have a template\<close>

lemma chain_external_event_nonempty: "chain_external_event \<noteq> []"
  by (simp add: chain_external_event_def)

lemma chain_series_continuation_nonempty: "chain_series_continuation \<noteq> []"
  by (simp add: chain_series_continuation_def)

lemma chain_self_promotion_nonempty: "chain_self_promotion \<noteq> []"
  by (simp add: chain_self_promotion_def)

lemma chain_new_user_discovery_nonempty: "chain_new_user_discovery \<noteq> []"
  by (simp add: chain_new_user_discovery_def)

lemmas chain_nonempty =
  chain_external_event_nonempty chain_series_continuation_nonempty
  chain_self_promotion_nonempty chain_new_user_discovery_nonempty

text \<open>The chain of a label that is a string: the four tests in order.\<close>

lemma renderMechanismChain_string:
  assumes "get_prop c ''mechanism'' = Inr (JStr label)"
  shows "renderMechanismChain c =
    Inr (if sublist ''External Event'' label \<and> sublist ''Contextual Discovery'' label
           then chain_external_event
         else if sublist ''Author Series Continuation'' label \<and> \<not> sublist ''Possible'' label
           then chain_series_continuation
         else if sublist ''Author Self-Promotion'' label
           then chain_self_promotion
         else if label = ''New User Discovery''
           then chain_new_user_discovery
         else [])"
proof -
  have "(if truthy (JStr label) then JStr label else JStr []) = JStr label"
    by simp
  then show ?thesis
    using assms by (simp add: renderMechanismChain_def Let_def js_and_def js_not_def)
qed

text \<open>A missing label (\<^verbatim>\<open>undefined\<close> or \<^verbatim>\<open>null\<close>) is replaced by the empty string.\<close>

lemma renderMechanismChain_missing:
  assumes "get_prop c ''mechanism'' = Inr m" and "m = JUndefined \<or> m = JNull"
  shows "renderMechanismChain c = Inr []"
  using assms by (auto simp add: renderMechanismChain_def Let_def js_and_def js_not_def)

text \<open>
  C10. For a case whose mechanism label is a string, or is missing (and then counts as
  the empty label), \<^verbatim>\<open>renderMechanismChain\<close> returns a text, and the text is not empty
  exactly when the label contains both \<^verbatim>\<open>External Event\<close> and \<^verbatim>\<open>Contextual Discovery\<close>, or
  contains \<^verbatim>\<open>Author Series Continuation\<close> and not \<^verbatim>\<open>Possible\<close>, or contains
  \<^verbatim>\<open>Author Self-Promotion\<close>, or is exactly \<^verbatim>\<open>New User Discovery\<close>.
\<close>

theorem renderMechanismChain_nonempty_iff:
  assumes "get_prop c ''mechanism'' = Inr m"
    and "m = JStr label \<or> ((m = JUndefined \<or> m = JNull) \<and> label = [])"
  shows "\<exists>html. renderMechanismChain c = Inr html \<and>
    (html \<noteq> [] \<longleftrightarrow>
       (sublist ''External Event'' label \<and> sublist ''Contextual Discovery'' label) \<or>
       (sublist ''Author Series Continuation'' label \<and> \<not> sublist ''Possible'' label) \<or>
       sublist ''Author Self-Promotion'' label \<or>
       label = ''New User Discovery'')"
proof (cases "m = JStr label")
  case True
  with assms(1) have "get_prop c ''mechanism'' = Inr (JStr label)" by simp
  from renderMechanismChain_string [OF this] show ?thesis
    by (simp add: chain_nonempty)
next
  case False
  with assms(2) have m: "m = JUndefined \<or> m = JNull" and l: "label = []" by auto
  from renderMechanismChain_missing [OF assms(1) m] l show ?thesis
    by simp
qed

theorem renderMechanismChain_nonempty_iff_witness:
  "renderMechanismChain (JObj [(''mechanism'', JStr ''Author Series Continuation (confirmed)'')])
     = Inr chain_series_continuation \<and>
   renderMechanismChain (JObj [(''mechanism'', JStr ''Possible Author Series Continuation'')])
     = Inr [] \<and>
   renderMechanismChain (JObj [(''rank'', JNum (Num 1))]) = Inr []"
proof -
  have s1: "sublist ''Author Series Continuation'' ''Author Series Continuation (confirmed)''"
    by code_simp
  have s2: "\<not> sublist ''Possible'' ''Author Series Continuation (confirmed)''"
    by code_simp
  have s3: "sublist ''Possible'' ''Possible Author Series Continuation''"
    by code_simp
  have s4: "\<not> sublist ''External Event'' ''Possible Author Series Continuation''"
    by code_simp
  have s5: "\<not> sublist ''Author Self-Promotion'' ''Possible Author Series Continuation''"
    by code_simp
  have s6: "\<not> sublist ''External Event'' ''Author Series Continuation (confirmed)''"
    by code_simp
  have h1: "get_prop (JObj [(''mechanism'', JStr ''Author Series Continuation (confirmed)'')])
      ''mechanism'' = Inr (JStr ''Author Series Continuation (confirmed)'')"
    by simp
  have h2: "get_prop (JObj [(''mechanism'', JStr ''Possible Author Series Continuation'')])
      ''mechanism'' = Inr (JStr ''Possible Author Series Continuation'')"
    by simp
  have h3: "get_prop (JObj [(''rank'', JNum (Num 1))]) ''mechanism'' = Inr JUndefined"
    by simp
  from renderMechanismChain_nonempty_iff [OF h1, of "''Author Series Continuation (confirmed)''"]
  obtain html1 where r1:
    "renderMechanismChain (JObj [(''mechanism'', JStr ''Author Series Continuation (confirmed)'')])
       = Inr html1" and n1: "html1 \<noteq> []"
    using s1 s2 by auto
  from renderMechanismChain_nonempty_iff [OF h2, of "''Possible Author Series Continuation''"]
  obtain html2 where r2:
    "renderMechanismChain (JObj [(''mechanism'', JStr ''Possible Author Series Continuation'')])
       = Inr html2" and n2: "html2 = []"
    using s3 s4 s5 by auto
  from renderMechanismChain_nonempty_iff [OF h3, of "[]"]
  obtain html3 where r3: "renderMechanismChain (JObj [(''rank'', JNum (Num 1))]) = Inr html3"
    and n3: "html3 = []"
    by auto
  have e1: "html1 = chain_series_continuation"
    using r1 renderMechanismChain_string [OF h1] s1 s2 s6
    by simp
  show ?thesis using r1 r2 r3 e1 n2 n3 by simp
qed


end
